theory Spec2Isabelle
  imports Main "HOL-Library.Sublist" "HOL-Library.AList"
begin

section \<open>Python strings\<close>

text \<open>
  Strings are lists of 8-bit characters; the column names, keywords and metric names of
  \<^verbatim>\<open>plot_results.py\<close> are ASCII. \<open>lower\<close> is \<^verbatim>\<open>str.lower\<close> on ASCII: the
  letters A to Z are mapped to a to z and every other character is kept.
\<close>

definition lower_char :: "char \<Rightarrow> char" where
  "lower_char c =
     (case map_of (zip ''ABCDEFGHIJKLMNOPQRSTUVWXYZ'' ''abcdefghijklmnopqrstuvwxyz'') c of
        None \<Rightarrow> c
      | Some d \<Rightarrow> d)"

definition lower :: "string \<Rightarrow> string" where
  "lower s = map lower_char s"

text \<open>\<^verbatim>\<open>sub in s\<close>: \<open>sub\<close> occurs in \<open>s\<close> as a contiguous block, tried at every position.\<close>

fun contains :: "string \<Rightarrow> string \<Rightarrow> bool" where
  "contains sub [] = (sub = [])"
| "contains sub (c # s) = (prefix sub (c # s) \<or> contains sub s)"

text \<open>\<^verbatim>\<open>s.replace(" ", "_")\<close>: every space becomes an underscore.\<close>

definition replace_space :: "string \<Rightarrow> string" where
  "replace_space s = map (\<lambda>c. if c = CHR '' '' then CHR ''_'' else c) s"

text \<open>\<^verbatim>\<open>str(n)\<close> of a natural number and of an integer, in decimal.\<close>

definition digit_char :: "nat \<Rightarrow> char" where
  "digit_char d = ''0123456789'' ! d"

fun str_nat :: "nat \<Rightarrow> string" where
  "str_nat n = (if n < 10 then [digit_char n] else str_nat (n div 10) @ [digit_char (n mod 10)])"

declare str_nat.simps [simp del]

definition str_int :: "int \<Rightarrow> string" where
  "str_int i = (if i < 0 then CHR ''-'' # str_nat (nat (- i)) else str_nat (nat i))"

section \<open>The column classifier\<close>

text \<open>
  The inner loop of \<^verbatim>\<open>find_column\<close>: the keywords are tried in order against the
  lower-cased column name, and the first hit ends the search.
\<close>

fun keyword_hit :: "string \<Rightarrow> string list \<Rightarrow> bool" where
  "keyword_hit col_lower [] = False"
| "keyword_hit col_lower (keyword # kws) =
     (if contains (lower keyword) col_lower then True else keyword_hit col_lower kws)"

text \<open>
  The outer loop over \<^verbatim>\<open>df.columns\<close>: the first column with a hit is returned, and
  \<open>None\<close> when the loop runs out.
\<close>

fun find_column_in :: "string list \<Rightarrow> string list \<Rightarrow> string option" where
  "find_column_in [] kws = None"
| "find_column_in (col # cols) kws =
     (if keyword_hit (lower col) kws then Some col else find_column_in cols kws)"

section \<open>Python floats\<close>

text \<open>
  The script never computes with floats; it only creates them (\<^verbatim>\<open>float(x)\<close>), prints
  them (\<^verbatim>\<open>str(x)\<close>) and formats them (\<^verbatim>\<open>f'{x:.2f}'\<close>). The float type is a type
  parameter \<open>'f\<close> and these built-in operations are passed as a record:
  \<open>float_of_int\<close> is \<^verbatim>\<open>float(i)\<close> of an integer, \<open>float_of_str\<close> is \<^verbatim>\<open>float(s)\<close> of a
  string (\<open>None\<close> when Python raises ValueError), \<open>format_2f\<close> is the format
  specification \<^verbatim>\<open>.2f\<close>, and \<open>str_float\<close> is \<^verbatim>\<open>str(x)\<close>.
\<close>

record 'f float_ops =
  float_of_int :: "int \<Rightarrow> 'f"
  float_of_str :: "string \<Rightarrow> 'f option"
  format_2f :: "'f \<Rightarrow> string"
  str_float :: "'f \<Rightarrow> string"

section \<open>The tabular dataset\<close>

text \<open>
  A cell of a frame read by \<^verbatim>\<open>pd.read_csv\<close>: an integer column holds
  \<^verbatim>\<open>numpy.int64\<close> values, a float column (and a missing value) \<^verbatim>\<open>float\<close> values,
  a boolean column \<^verbatim>\<open>numpy.bool_\<close> values, and any other column Python objects:
  strings, and Python \<^verbatim>\<open>bool\<close> values where a boolean column has missing entries.
\<close>

datatype 'f cell =
  IntCell int | FloatCell 'f | BoolCell bool | PyBoolCell bool | StrCell string

text \<open>
  The frame: the ordered column names and the ordered rows, each row holding one cell per
  column, in column order.
\<close>

record 'f dataframe =
  columns :: "string list"
  rows :: "'f cell list list"

text \<open>\<^verbatim>\<open>str(x)\<close> of a cell.\<close>

fun str_cell :: "'f float_ops \<Rightarrow> 'f cell \<Rightarrow> string" where
  "str_cell ops (IntCell i) = str_int i"
| "str_cell ops (FloatCell x) = str_float ops x"
| "str_cell ops (BoolCell b) = (if b then ''True'' else ''False'')"
| "str_cell ops (PyBoolCell b) = (if b then ''True'' else ''False'')"
| "str_cell ops (StrCell s) = s"

text \<open>
  \<^verbatim>\<open>float(x)\<close> of a cell; \<open>None\<close> stands for the exception that a string which is not
  a number raises.
\<close>

fun float_cell :: "'f float_ops \<Rightarrow> 'f cell \<Rightarrow> 'f option" where
  "float_cell ops (IntCell i) = Some (float_of_int ops i)"
| "float_cell ops (FloatCell x) = Some x"
| "float_cell ops (BoolCell b) = Some (float_of_int ops (if b then 1 else 0))"
| "float_cell ops (PyBoolCell b) = Some (float_of_int ops (if b then 1 else 0))"
| "float_cell ops (StrCell s) = float_of_str ops s"

text \<open>
  \<^verbatim>\<open>isinstance(val, (int, float))\<close> on an element of \<^verbatim>\<open>data[col].values\<close>:
  \<^verbatim>\<open>numpy.float64\<close> is a subclass of Python's \<^verbatim>\<open>float\<close>, while \<^verbatim>\<open>numpy.int64\<close> and
  \<^verbatim>\<open>numpy.bool_\<close> are subclasses of neither \<^verbatim>\<open>int\<close> nor \<^verbatim>\<open>float\<close>. Python's own
  \<^verbatim>\<open>bool\<close> is a subclass of \<^verbatim>\<open>int\<close>.
\<close>

fun isinstance_int_float :: "'f cell \<Rightarrow> bool" where
  "isinstance_int_float (FloatCell x) = True"
| "isinstance_int_float (IntCell i) = False"
| "isinstance_int_float (BoolCell b) = False"
| "isinstance_int_float (PyBoolCell b) = True"
| "isinstance_int_float (StrCell s) = False"

text \<open>The position of a column name among \<^verbatim>\<open>data.columns\<close>.\<close>

definition column_index :: "string list \<Rightarrow> string \<Rightarrow> nat" where
  "column_index cols col = length (takeWhile (\<lambda>c. c \<noteq> col) cols)"

text \<open>\<^verbatim>\<open>data[col].values\<close>: the cells of a column, in row order.\<close>

definition column_values :: "'f dataframe \<Rightarrow> string \<Rightarrow> 'f cell list" where
  "column_values data col = map (\<lambda>row. row ! column_index (columns data) col) (rows data)"

definition find_column :: "'f dataframe \<Rightarrow> string list \<Rightarrow> string option" where
  "find_column df kws = find_column_in (columns df) kws"

text \<open>Truth value of \<^verbatim>\<open>find_column\<close>'s result in \<^verbatim>\<open>if col:\<close>: neither None nor empty.\<close>

fun truthy :: "string option \<Rightarrow> bool" where
  "truthy None = False"
| "truthy (Some s) = (s \<noteq> [])"

section \<open>Paths and the locator\<close>

text \<open>\<^verbatim>\<open>os.path.join(a, b)\<close> with \<^verbatim>\<open>/\<close> as separator.\<close>

definition path_join :: "string \<Rightarrow> string \<Rightarrow> string" where
  "path_join a b =
     (if prefix ''/'' b then b
      else if a = [] \<or> last a = CHR ''/'' then a @ b
      else a @ ''/'' @ b)"

definition possible_locations :: "string \<Rightarrow> string list" where
  "possible_locations project_root =
     [path_join project_root ''results.csv'',
      path_join (path_join project_root ''output'') ''results.csv'',
      path_join (path_join project_root ''results'') ''results.csv'']"

text \<open>
  The search loop: \<open>path_exists\<close> is \<^verbatim>\<open>os.path.exists\<close> on the file system of the run;
  the loop breaks at the first location that exists.
\<close>

fun first_existing :: "(string \<Rightarrow> bool) \<Rightarrow> string list \<Rightarrow> string option" where
  "first_existing path_exists [] = None"
| "first_existing path_exists (location # locations) =
     (if path_exists location then Some location else first_existing path_exists locations)"

section \<open>Charts and console output\<close>

text \<open>
  What \<^verbatim>\<open>plt.bar\<close>, \<^verbatim>\<open>plt.text\<close>, \<^verbatim>\<open>plt.xticks\<close> and \<^verbatim>\<open>plt.savefig\<close> receive for one
  figure: the bar heights, the tick labels, the text above each bar, title, y-axis label,
  colour, and the file the figure is saved to.
\<close>

record 'f chart =
  metric_name :: string
  bar_values :: "'f cell list"
  tick_labels :: "'f cell list"
  bar_texts :: "string list"
  chart_title :: string
  chart_ylabel :: string
  bar_color :: string
  output_file :: string

text \<open>
  A printed line. The text of \<^verbatim>\<open>list(data.columns)\<close> and of \<^verbatim>\<open>data.head()\<close> is not
  spelled out: such a line keeps the list of names, or the first five rows.
\<close>

datatype 'f printed =
  Line string
| LineWithColumns string "string list"
| Preview "'f cell list list"

text \<open>The effects of a run so far: the lines printed and the figures saved, oldest first.\<close>

record 'f effects =
  console :: "'f printed list"
  charts :: "'f chart list"

definition output_name :: "string \<Rightarrow> string" where
  "output_name metric = lower (replace_space metric) @ ''_graph.png''"

text \<open>\<^verbatim>\<open>[f"Config {i+1}" for i in range(n)]\<close>\<close>

definition config_labels :: "nat \<Rightarrow> 'f cell list" where
  "config_labels n = map (\<lambda>i. StrCell (''Config '' @ str_nat (i + 1))) [0..<n]"

text \<open>
  The text above a bar in \<^verbatim>\<open>create_bar_graph\<close>: the value formatted with \<^verbatim>\<open>.2f\<close> (a
  Python bool through its numeric value) when the \<^verbatim>\<open>isinstance\<close> test holds, and
  \<^verbatim>\<open>str(val)\<close> otherwise.
\<close>

definition bar_text :: "'f float_ops \<Rightarrow> 'f cell \<Rightarrow> string" where
  "bar_text ops val =
     (if isinstance_int_float val
      then (case float_cell ops val of Some x \<Rightarrow> format_2f ops x | None \<Rightarrow> str_cell ops val)
      else str_cell ops val)"

section \<open>The column-based renderer\<close>

definition create_bar_graph ::
  "'f float_ops \<Rightarrow> string \<Rightarrow> 'f dataframe \<Rightarrow> string \<Rightarrow> string list \<Rightarrow> string \<Rightarrow> string \<Rightarrow> string
     \<Rightarrow> 'f effects \<Rightarrow> 'f effects" where
  "create_bar_graph ops project_root data metric kws ylabel title color eff =
     (case find_column data kws of
        None \<Rightarrow>
          eff\<lparr>console := console eff @
            [Line (''Warning: Could not find column for '' @ metric),
             LineWithColumns ''Available columns: '' (columns data)]\<rparr>
      | Some metric_col \<Rightarrow>
          (let values = column_values data metric_col;
               labels =
                 (if length (columns data) > 1 then
                    (let first_col = columns data ! 0 in
                     if first_col \<noteq> metric_col then column_values data first_col
                     else config_labels (length values))
                  else config_labels (length values));
               file = path_join project_root (output_name metric)
           in eff\<lparr>console := console eff @ [Line (''Saved: '' @ file)],
                  charts := charts eff @
                    [\<lparr>metric_name = metric, bar_values = values, tick_labels = labels,
                      bar_texts = map (bar_text ops) values, chart_title = title,
                      chart_ylabel = ylabel, bar_color = color, output_file = file\<rparr>]\<rparr>))"

section \<open>The row-based fallback\<close>

definition metric_keywords :: "(string \<times> string list) list" where
  "metric_keywords =
     [(''Execution Time'', [''execution'', ''time'', ''exec'']),
      (''Delay'', [''delay'']),
      (''Energy'', [''energy'', ''power'']),
      (''Network Usage'', [''network'', ''usage'', ''bandwidth''])]"

definition color_map :: "(string \<times> string) list" where
  "color_map =
     [(''Execution Time'', ''steelblue''), (''Delay'', ''green''),
      (''Energy'', ''purple''), (''Network Usage'', ''orange'')]"

definition ylabel_map :: "(string \<times> string) list" where
  "ylabel_map =
     [(''Execution Time'', ''Execution Time (ms)''), (''Delay'', ''Delay (ms)''),
      (''Energy'', ''Energy Consumption (J)''), (''Network Usage'', ''Network Usage (Bytes)'')]"

text \<open>\<^verbatim>\<open>d.get(key, default)\<close>\<close>

definition dict_get :: "('k \<times> 'v) list \<Rightarrow> 'k \<Rightarrow> 'v \<Rightarrow> 'v" where
  "dict_get d key dflt = (case map_of d key of None \<Rightarrow> dflt | Some v \<Rightarrow> v)"

text \<open>
  The loop over the cells of \<^verbatim>\<open>data.columns[1:]\<close>: a cell that \<^verbatim>\<open>float\<close> accepts is
  appended, and the exception of any other cell is swallowed by the bare \<^verbatim>\<open>except\<close>.
\<close>

fun row_values :: "'f float_ops \<Rightarrow> 'f cell list \<Rightarrow> 'f list" where
  "row_values ops [] = []"
| "row_values ops (c # cs) =
     (case float_cell ops c of
        None \<Rightarrow> row_values ops cs
      | Some val \<Rightarrow> val # row_values ops cs)"

text \<open>\<^verbatim>\<open>any(keyword in metric_lower for keyword in keywords)\<close>\<close>

definition any_keyword_in :: "string list \<Rightarrow> string \<Rightarrow> bool" where
  "any_keyword_in kws metric_lower = list_ex (\<lambda>keyword. contains keyword metric_lower) kws"

text \<open>
  The loop over \<^verbatim>\<open>metric_keywords.items()\<close> for one row. \<open>metric_rows\<close> is the dictionary
  of the series found so far, as an association list in insertion order:
  \<^verbatim>\<open>metric_rows[metric] = values\<close> replaces the value of a key that is present, in place,
  and appends a key that is not.
\<close>

fun match_metrics ::
  "'f float_ops \<Rightarrow> string \<Rightarrow> 'f cell list \<Rightarrow> (string \<times> string list) list
     \<Rightarrow> (string \<times> 'f list) list \<Rightarrow> (string \<times> 'f list) list" where
  "match_metrics ops metric_lower rest [] metric_rows = metric_rows"
| "match_metrics ops metric_lower rest ((metric, kws) # others) metric_rows =
     match_metrics ops metric_lower rest others
       (if any_keyword_in kws metric_lower then
          (let values = row_values ops rest in
           if values \<noteq> [] then AList.update metric values metric_rows else metric_rows)
        else metric_rows)"

text \<open>
  The loop over \<^verbatim>\<open>data.iterrows()\<close>. The first cell of a row is \<^verbatim>\<open>row[first_col]\<close> and the
  others are the cells of \<^verbatim>\<open>data.columns[1:]\<close>. A row without cells does not occur in a
  frame that has a column.
\<close>

fun scan_rows ::
  "'f float_ops \<Rightarrow> 'f cell list list \<Rightarrow> (string \<times> 'f list) list \<Rightarrow> (string \<times> 'f list) list" where
  "scan_rows ops [] metric_rows = metric_rows"
| "scan_rows ops ([] # others) metric_rows = scan_rows ops others metric_rows"
| "scan_rows ops ((first # rest) # others) metric_rows =
     scan_rows ops others
       (match_metrics ops (lower (str_cell ops first)) rest metric_keywords metric_rows)"

text \<open>The figure drawn for one entry of \<open>metric_rows\<close>.\<close>

definition row_chart :: "'f float_ops \<Rightarrow> string \<Rightarrow> string \<times> 'f list \<Rightarrow> 'f chart" where
  "row_chart ops project_root entry =
     (case entry of (metric, values) \<Rightarrow>
        \<lparr>metric_name = metric,
         bar_values = map FloatCell values,
         tick_labels = config_labels (length values),
         bar_texts = map (format_2f ops) values,
         chart_title = metric @ '' Comparison'',
         chart_ylabel = dict_get ylabel_map metric metric,
         bar_color = dict_get color_map metric ''steelblue'',
         output_file = path_join project_root (output_name metric)\<rparr>)"

fun draw_row_charts ::
  "'f float_ops \<Rightarrow> string \<Rightarrow> (string \<times> 'f list) list \<Rightarrow> 'f effects \<Rightarrow> 'f effects" where
  "draw_row_charts ops project_root [] eff = eff"
| "draw_row_charts ops project_root (entry # entries) eff =
     draw_row_charts ops project_root entries
       (eff\<lparr>console := console eff @
               [Line (''Saved: '' @ output_file (row_chart ops project_root entry))],
            charts := charts eff @ [row_chart ops project_root entry]\<rparr>)"

datatype py_error = IndexError

text \<open>
  \<^verbatim>\<open>create_graphs_from_row_structure\<close>: \<^verbatim>\<open>data.columns[0]\<close> raises IndexError on a frame
  without columns; otherwise the effects and the returned truth value.
\<close>

definition create_graphs_from_row_structure ::
  "'f float_ops \<Rightarrow> string \<Rightarrow> 'f dataframe \<Rightarrow> 'f effects \<Rightarrow> py_error + ('f effects \<times> bool)" where
  "create_graphs_from_row_structure ops project_root data eff =
     (if columns data = [] then Inl IndexError
      else
        (let metric_rows = scan_rows ops (rows data) [] in
         if metric_rows \<noteq> [] then Inr (draw_row_charts ops project_root metric_rows eff, True)
         else Inr (eff, False)))"

section \<open>The script as a whole\<close>

text \<open>What a run leaves behind: the lines printed, the figures saved, the exit status.\<close>

record 'f outcome =
  printed_lines :: "'f printed list"
  saved_charts :: "'f chart list"
  exit_code :: nat

definition banner :: "nat \<Rightarrow> string" where
  "banner n = replicate n (CHR ''='')"

definition missing_file_report :: "string list \<Rightarrow> 'f printed list" where
  "missing_file_report locations =
     [Line (banner 60),
      Line ''ERROR: results.csv not found!'',
      Line (banner 60),
      Line (CHR 0x0A # ''Searched in the following locations:'')]
     @ map (\<lambda>loc. Line (''  - '' @ loc)) locations
     @ [Line (CHR 0x0A # ''Please ensure results.csv exists in one of these locations.''),
        Line ''The Java simulation should generate this file after running.'',
        Line (banner 60)]"

definition format_guidance :: "'f printed list" where
  "format_guidance =
     [Line (CHR 0x0A # ''Could not automatically detect metric columns.''),
      Line ''Please check your CSV structure.'',
      Line (CHR 0x0A # ''Expected format:''),
      Line ''Option 1 - Column-based:'',
      Line ''  Configuration, Execution Time, Delay, Energy, Network Usage'',
      Line ''  Config1, 100, 50, 200, 1000'',
      Line (CHR 0x0A # ''Option 2 - Row-based:''),
      Line ''  Metric, Config1, Config2, Config3'',
      Line ''  Execution Time, 100, 120, 110'',
      Line ''  Delay, 50, 55, 52'']"

definition closing_lines :: "'f printed list" where
  "closing_lines =
     [Line (CHR 0x0A # banner 50), Line ''Visualization Complete!'', Line (banner 50)]"

text \<open>The four conditional calls of the column-based branch, in the script's order.\<close>

definition column_branch ::
  "'f float_ops \<Rightarrow> string \<Rightarrow> 'f dataframe \<Rightarrow> string option \<Rightarrow> string option \<Rightarrow> string option
     \<Rightarrow> string option \<Rightarrow> 'f effects \<Rightarrow> 'f effects" where
  "column_branch ops project_root data execution_col delay_col energy_col network_col eff =
     (let eff1 = (if truthy execution_col then
                    create_bar_graph ops project_root data ''Execution Time''
                      [''execution'', ''time''] ''Execution Time (ms)''
                      ''Execution Time Comparison'' ''steelblue'' eff
                  else eff);
          eff2 = (if truthy delay_col then
                    create_bar_graph ops project_root data ''Delay''
                      [''delay''] ''Delay (ms)'' ''Delay Comparison'' ''green'' eff1
                  else eff1);
          eff3 = (if truthy energy_col then
                    create_bar_graph ops project_root data ''Energy''
                      [''energy'', ''power''] ''Energy Consumption (J)''
                      ''Energy Consumption Comparison'' ''purple'' eff2
                  else eff2)
      in (if truthy network_col then
            create_bar_graph ops project_root data ''Network Usage''
              [''network'', ''usage''] ''Network Usage (Bytes)''
              ''Network Usage Comparison'' ''orange'' eff3
          else eff3))"

text \<open>
  The main execution on a loaded frame: classification at the top level, then the
  column-based branch or the row-based fallback. An IndexError of the fallback is not
  caught anywhere, so the interpreter ends the run with status 1.
\<close>

definition visualize ::
  "'f float_ops \<Rightarrow> string \<Rightarrow> 'f dataframe \<Rightarrow> 'f effects \<Rightarrow> 'f outcome" where
  "visualize ops project_root data eff0 =
     (let eff = eff0\<lparr>console := console eff0 @
                   [Line (CHR 0x0A # banner 50),
                    Line ''Creating Visualization Graphs'',
                    Line (banner 50 @ [CHR 0x0A])]\<rparr>;
          execution_col = find_column data [''execution'', ''time'', ''exec''];
          delay_col = find_column data [''delay''];
          energy_col = find_column data [''energy'', ''power''];
          network_col = find_column data [''network'', ''usage'', ''bandwidth'']
      in
        if truthy execution_col \<or> truthy delay_col \<or> truthy energy_col \<or> truthy network_col
        then
          (let eff' = column_branch ops project_root data
                        execution_col delay_col energy_col network_col
                        (eff\<lparr>console := console eff @
                           [Line (''Detected column-based CSV structure'' @ [CHR 0x0A])]\<rparr>)
           in \<lparr>printed_lines = console eff' @ closing_lines,
               saved_charts = charts eff', exit_code = 0\<rparr>)
        else
          (let eff1 = eff\<lparr>console := console eff @
                        [Line (''Trying row-based CSV structure'' @ [CHR 0x0A])]\<rparr>
           in case create_graphs_from_row_structure ops project_root data eff1 of
                Inl err \<Rightarrow>
                  \<lparr>printed_lines = console eff1, saved_charts = charts eff1, exit_code = 1\<rparr>
              | Inr (eff', found) \<Rightarrow>
                  \<lparr>printed_lines =
                     console eff' @ (if \<not> found then format_guidance else []) @ closing_lines,
                   saved_charts = charts eff', exit_code = 0\<rparr>))"

text \<open>
  The whole script. \<open>project_root\<close> is the parent of the script's directory,
  \<open>path_exists\<close> is \<^verbatim>\<open>os.path.exists\<close>, and \<open>read_csv\<close> is \<^verbatim>\<open>pd.read_csv\<close> on the
  files of the run: the frame, or the message of the exception it raises.
\<close>

definition main ::
  "'f float_ops \<Rightarrow> string \<Rightarrow> (string \<Rightarrow> bool) \<Rightarrow> (string \<Rightarrow> string + 'f dataframe) \<Rightarrow> 'f outcome" where
  "main ops project_root path_exists read_csv =
     (case first_existing path_exists (possible_locations project_root) of
        None \<Rightarrow>
          \<lparr>printed_lines = missing_file_report (possible_locations project_root),
           saved_charts = [], exit_code = 1\<rparr>
      | Some csv_file \<Rightarrow>
          (case read_csv csv_file of
             Inl e \<Rightarrow>
               \<lparr>printed_lines =
                  [Line (''Reading data from: '' @ csv_file),
                   Line (''Error reading CSV file: '' @ e)],
                saved_charts = [], exit_code = 1\<rparr>
           | Inr data \<Rightarrow>
               visualize ops project_root data
                 \<lparr>console =
                    [Line (''Reading data from: '' @ csv_file),
                     Line ''CSV file loaded successfully!'',
                     LineWithColumns ''Columns found: '' (columns data),
                     Line (CHR 0x0A # ''First few rows:''),
                     Preview (take 5 (rows data))],
                  charts = []\<rparr>))"

section \<open>Evaluation on concrete inputs\<close>

text \<open>
  An instance of the float operations for evaluating the model: the floats that are whole
  numbers, each written as its integer value. \<^verbatim>\<open>float(i)\<close> of an integer is that number;
  of the strings, only plain runs of decimal digits are read here;
  \<^verbatim>\<open>.2f\<close> prints \<^verbatim>\<open>100.00\<close> and \<^verbatim>\<open>str\<close> prints \<^verbatim>\<open>100.0\<close> for the float 100.
\<close>

definition digit_value :: "char \<Rightarrow> nat option" where
  "digit_value c = map_of (zip ''0123456789'' [0..<10]) c"

fun read_digits :: "nat \<Rightarrow> string \<Rightarrow> nat option" where
  "read_digits acc [] = Some acc"
| "read_digits acc (c # cs) =
     (case digit_value c of None \<Rightarrow> None | Some d \<Rightarrow> read_digits (10 * acc + d) cs)"

definition whole_floats :: "int float_ops" where
  "whole_floats =
     \<lparr>float_of_int = (\<lambda>i. i),
      float_of_str = (\<lambda>s. if s = [] then None else map_option int (read_digits 0 s)),
      format_2f = (\<lambda>x. str_int x @ ''.00''),
      str_float = (\<lambda>x. str_int x @ ''.0'')\<rparr>"

text \<open>
  A run of the whole script with these floats, where \<^verbatim>\<open>/proj/results.csv\<close> is the only
  file that exists and holds the given frame.
\<close>

definition sample_run :: "int dataframe \<Rightarrow> int outcome" where
  "sample_run data =
     main whole_floats ''/proj'' (\<lambda>p. p = ''/proj/results.csv'') (\<lambda>p. Inr data)"

text \<open>
  The column-based dataset of the specification's example: one row
  \<^verbatim>\<open>Config1, 100, 50, 200, 1000\<close>, whose four numbers are read as integers.
\<close>

definition column_example :: "int dataframe" where
  "column_example =
     \<lparr>columns = [''Configuration'', ''Execution Time'', ''Delay'', ''Energy'', ''Network Usage''],
      rows = [[StrCell ''Config1'', IntCell 100, IntCell 50, IntCell 200, IntCell 1000]]\<rparr>"

section \<open>The classifier returns the first matching column\<close>

lemma contains_iff: "contains sub s \<longleftrightarrow> (\<exists>u v. s = u @ sub @ v)"
proof (induction s)
  case Nil
  then show ?case by auto
next
  case (Cons c s)
  show ?case
  proof
    assume "contains sub (c # s)"
    then consider "prefix sub (c # s)" | "contains sub s" by auto
    then show "\<exists>u v. c # s = u @ sub @ v"
    proof cases
      case 1
      then obtain v where "c # s = sub @ v" by (auto simp: prefix_def)
      then have "c # s = [] @ sub @ v" by simp
      then show ?thesis by blast
    next
      case 2
      with Cons.IH obtain u v where "s = u @ sub @ v" by blast
      then have "c # s = (c # u) @ sub @ v" by simp
      then show ?thesis by blast
    qed
  next
    assume "\<exists>u v. c # s = u @ sub @ v"
    then obtain u v where uv: "c # s = u @ sub @ v" by blast
    show "contains sub (c # s)"
    proof (cases u)
      case Nil
      with uv have "prefix sub (c # s)" by (simp add: prefix_def)
      then show ?thesis by simp
    next
      case (Cons a u')
      with uv have "s = u' @ sub @ v" by simp
      with Cons.IH have "contains sub s" by blast
      then show ?thesis by simp
    qed
  qed
qed

lemma keyword_hit_iff:
  "keyword_hit col_lower kws \<longleftrightarrow> (\<exists>k \<in> set kws. contains (lower k) col_lower)"
  by (induction kws) auto

lemma find_column_in_None:
  "find_column_in cols K = None \<longleftrightarrow> (\<forall>c \<in> set cols. \<not> keyword_hit (lower c) K)"
  by (induction cols) auto

lemma find_column_in_Some:
  "find_column_in cols K = Some c \<longleftrightarrow>
     (\<exists>pre post. cols = pre @ c # post \<and> keyword_hit (lower c) K
        \<and> (\<forall>x \<in> set pre. \<not> keyword_hit (lower x) K))"
proof (induction cols)
  case Nil
  then show ?case by simp
next
  case (Cons col cols)
  show ?case
  proof (cases "keyword_hit (lower col) K")
    case True
    have "(\<exists>pre post. col # cols = pre @ c # post \<and> keyword_hit (lower c) K
            \<and> (\<forall>x \<in> set pre. \<not> keyword_hit (lower x) K)) \<longleftrightarrow> col = c"
    proof
      assume "\<exists>pre post. col # cols = pre @ c # post \<and> keyword_hit (lower c) K
            \<and> (\<forall>x \<in> set pre. \<not> keyword_hit (lower x) K)"
      then obtain pre post where e: "col # cols = pre @ c # post"
        and n: "\<forall>x \<in> set pre. \<not> keyword_hit (lower x) K" by blast
      show "col = c"
      proof (cases pre)
        case Nil
        with e show ?thesis by simp
      next
        case (Cons a pre')
        with e have "a = col" by simp
        with Cons n True show ?thesis by simp
      qed
    next
      assume "col = c"
      with True have "col # cols = [] @ c # cols \<and> keyword_hit (lower c) K
            \<and> (\<forall>x \<in> set []. \<not> keyword_hit (lower x) K)" by simp
      then show "\<exists>pre post. col # cols = pre @ c # post \<and> keyword_hit (lower c) K
            \<and> (\<forall>x \<in> set pre. \<not> keyword_hit (lower x) K)" by blast
    qed
    with True show ?thesis by auto
  next
    case False
    have "(\<exists>pre post. col # cols = pre @ c # post \<and> keyword_hit (lower c) K
            \<and> (\<forall>x \<in> set pre. \<not> keyword_hit (lower x) K)) \<longleftrightarrow>
          (\<exists>pre post. cols = pre @ c # post \<and> keyword_hit (lower c) K
            \<and> (\<forall>x \<in> set pre. \<not> keyword_hit (lower x) K))" (is "?L \<longleftrightarrow> ?R")
    proof
      assume ?L
      then obtain pre post where e: "col # cols = pre @ c # post"
        and h: "keyword_hit (lower c) K"
        and n: "\<forall>x \<in> set pre. \<not> keyword_hit (lower x) K" by blast
      from e h False obtain pre' where p: "pre = col # pre'"
        by (cases pre) auto
      with e n have "cols = pre' @ c # post \<and> (\<forall>x \<in> set pre'. \<not> keyword_hit (lower x) K)"
        by simp
      with h show ?R by blast
    next
      assume ?R
      then obtain pre post where e: "cols = pre @ c # post"
        and h: "keyword_hit (lower c) K"
        and n: "\<forall>x \<in> set pre. \<not> keyword_hit (lower x) K" by blast
      from e n False have "col # cols = (col # pre) @ c # post
         \<and> (\<forall>x \<in> set (col # pre). \<not> keyword_hit (lower x) K)" by simp
      with h show ?L by blast
    qed
    with False Cons.IH show ?thesis by simp
  qed
qed

text \<open>
  Claim C1. \<^verbatim>\<open>find_column\<close> returns "not found" exactly when no column name, lower-cased,
  contains a lower-cased keyword as a substring; and it returns a column \<open>c\<close> exactly when
  \<open>c\<close> is the first column, in the order of the column list, whose lower-cased name
  contains some lower-cased keyword. Being a function of the column list and the keyword
  list alone, its result is determined by them.
\<close>

theorem find_column_first_match:
  "(find_column df K = None \<longleftrightarrow>
      (\<forall>c \<in> set (columns df). \<not> (\<exists>k \<in> set K. \<exists>u v. lower c = u @ lower k @ v)))
   \<and> (find_column df K = Some c \<longleftrightarrow>
      (\<exists>pre post. columns df = pre @ c # post
         \<and> (\<exists>k \<in> set K. \<exists>u v. lower c = u @ lower k @ v)
         \<and> (\<forall>x \<in> set pre. \<not> (\<exists>k \<in> set K. \<exists>u v. lower x = u @ lower k @ v))))"
  unfolding find_column_def find_column_in_None find_column_in_Some keyword_hit_iff contains_iff
  by simp

theorem find_column_first_match_witness:
  "\<exists>pre post. [''Config'', ''Net DELAY'', ''Delay (ms)''] = pre @ ''Net DELAY'' # post
      \<and> (\<exists>k \<in> set [''energy'', ''Delay'']. \<exists>u v. lower ''Net DELAY'' = u @ lower k @ v)
      \<and> (\<forall>x \<in> set pre. \<not> (\<exists>k \<in> set [''energy'', ''Delay'']. \<exists>u v. lower x = u @ lower k @ v))"
proof -
  have "find_column \<lparr>columns = [''Config'', ''Net DELAY'', ''Delay (ms)''], rows = ([] :: int cell list list)\<rparr>
          [''energy'', ''Delay''] = Some ''Net DELAY''"
    by code_simp
  then show ?thesis
    using find_column_first_match
      [of "\<lparr>columns = [''Config'', ''Net DELAY'', ''Delay (ms)''], rows = ([] :: int cell list list)\<rparr>"
          "[''energy'', ''Delay'']" "''Net DELAY''"]
    by simp
qed

section \<open>The series of a row\<close>

lemma row_values_append:
  "row_values ops (xs @ ys) = row_values ops xs @ row_values ops ys"
  by (induction xs) (auto split: option.splits)

lemma row_values_map_filter: "row_values ops cs = List.map_filter (float_cell ops) cs"
  by (induction cs) (auto simp: List.map_filter_simps split: option.splits)

lemma row_values_all_fail:
  "(\<forall>c \<in> set cs. float_cell ops c = None) \<Longrightarrow> row_values ops cs = []"
  by (induction cs) auto

lemma match_metrics_empty_values:
  "row_values ops rest = [] \<Longrightarrow> match_metrics ops ml rest mk acc = acc"
  by (induction mk arbitrary: acc) auto

lemma match_metrics_cong_values:
  "row_values ops rest = row_values ops rest' \<Longrightarrow>
     match_metrics ops ml rest mk acc = match_metrics ops ml rest' mk acc"
  by (induction mk arbitrary: acc) auto

text \<open>
  Claim C7. In the row-based extraction, a cell after the first that \<^verbatim>\<open>float\<close> rejects is
  left out of the series and the cells before and after it are extracted as if it were not
  there: the series of the row is the series of the cells before it followed by the series
  of the cells after it, and scanning the row gives the same result as scanning the row
  without that cell.
\<close>

theorem failed_cell_is_dropped:
  "float_cell ops c = None \<Longrightarrow>
     row_values ops (pre @ c # post) = row_values ops pre @ row_values ops post
     \<and> row_values ops (pre @ c # post) = List.map_filter (float_cell ops) (pre @ post)
     \<and> scan_rows ops ((first # pre @ c # post) # others) metric_rows
         = scan_rows ops ((first # pre @ post) # others) metric_rows"
proof -
  assume f: "float_cell ops c = None"
  have a: "row_values ops (pre @ c # post) = row_values ops pre @ row_values ops post"
    using f by (simp add: row_values_append)
  have b: "row_values ops (pre @ c # post) = row_values ops (pre @ post)"
    using a by (simp add: row_values_append)
  have d: "match_metrics ops (lower (str_cell ops first)) (pre @ c # post) metric_keywords metric_rows
       = match_metrics ops (lower (str_cell ops first)) (pre @ post) metric_keywords metric_rows"
    using b by (rule match_metrics_cong_values)
  show ?thesis using a b d by (simp add: row_values_map_filter)
qed

theorem failed_cell_is_dropped_witness:
  "float_cell whole_floats (StrCell ''n/a'') = None
   \<and> row_values whole_floats ([IntCell 100] @ StrCell ''n/a'' # [IntCell 110]) = [100, 110]
   \<and> scan_rows whole_floats
        ((StrCell ''Delay'' # [IntCell 100] @ StrCell ''n/a'' # [IntCell 110]) # []) []
       = [(''Delay'', [100, 110])]"
proof -
  have h: "float_cell whole_floats (StrCell ''n/a'') = None" by code_simp
  have r: "row_values whole_floats [IntCell 100] @ row_values whole_floats [IntCell 110] = [100, 110]"
    by code_simp
  have s: "scan_rows whole_floats ((StrCell ''Delay'' # [IntCell 100] @ [IntCell 110]) # []) []
       = [(''Delay'', [100, 110])]" by code_simp
  show ?thesis
    using h r s failed_cell_is_dropped [OF h, of "[IntCell 100]" "[IntCell 110]" "StrCell ''Delay''" "[]" "[]"]
    by simp
qed

section \<open>The dictionary built by the row scan\<close>

lemma map_of_match_metrics:
  "map_of (match_metrics ops ml rest mk acc) m =
     (if (\<exists>kws. (m, kws) \<in> set mk \<and> any_keyword_in kws ml) \<and> row_values ops rest \<noteq> []
      then Some (row_values ops rest) else map_of acc m)"
proof (induction mk arbitrary: acc)
  case Nil
  then show ?case by simp
next
  case (Cons p mk)
  obtain metric kws where p: "p = (metric, kws)" by (cases p)
  show ?case
    unfolding p by (auto simp: Cons.IH AList.update_conv' Let_def)
qed

lemma distinct_match_metrics:
  "distinct (map fst acc) \<Longrightarrow> distinct (map fst (match_metrics ops ml rest mk acc))"
proof (induction mk arbitrary: acc)
  case Nil
  then show ?case by simp
next
  case (Cons p mk)
  obtain metric kws where p: "p = (metric, kws)" by (cases p)
  show ?case
    unfolding p using Cons.prems by (auto simp: Let_def AList.distinct_update intro!: Cons.IH)
qed

lemma keys_match_metrics:
  "fst ` set (match_metrics ops ml rest mk acc) \<subseteq> fst ` set acc \<union> fst ` set mk"
proof (induction mk arbitrary: acc)
  case Nil
  then show ?case by simp
next
  case (Cons p mk)
  obtain metric kws where p: "p = (metric, kws)" by (cases p)
  define acc' where "acc' =
    (if any_keyword_in kws ml then
       (let values = row_values ops rest in
        if values \<noteq> [] then AList.update metric values acc else acc)
     else acc)"
  have "fst ` set (AList.update metric v acc) = insert metric (fst ` set acc)" for v
    by (simp add: AList.dom_update)
  then have a: "fst ` set acc' \<subseteq> insert metric (fst ` set acc)"
    unfolding acc'_def Let_def by (simp add: subset_insertI)
  have "match_metrics ops ml rest (p # mk) acc = match_metrics ops ml rest mk acc'"
    unfolding p acc'_def by simp
  moreover have "fst ` set (match_metrics ops ml rest mk acc') \<subseteq> fst ` set acc' \<union> fst ` set mk"
    by (rule Cons.IH)
  ultimately have "fst ` set (match_metrics ops ml rest (p # mk) acc) \<subseteq> fst ` set acc' \<union> fst ` set mk"
    by simp
  also have "\<dots> \<subseteq> insert metric (fst ` set acc) \<union> fst ` set mk"
    using a by blast
  also have "\<dots> = fst ` set acc \<union> fst ` set (p # mk)"
    unfolding p by auto
  finally show ?case .
qed

lemma scan_rows_append:
  "scan_rows ops (xs @ ys) acc = scan_rows ops ys (scan_rows ops xs acc)"
  by (induction ops xs acc rule: scan_rows.induct) auto

lemma distinct_scan_rows:
  "distinct (map fst acc) \<Longrightarrow> distinct (map fst (scan_rows ops rs acc))"
  by (induction ops rs acc rule: scan_rows.induct) (auto intro: distinct_match_metrics)

lemma keys_scan_rows:
  "fst ` set (scan_rows ops rs acc) \<subseteq> fst ` set acc \<union> fst ` set metric_keywords"
proof (induction ops rs acc rule: scan_rows.induct)
  case (3 ops first rest others metric_rows)
  show ?case
    using "3.IH" keys_match_metrics [of ops "lower (str_cell ops first)" rest metric_keywords metric_rows]
    by auto
qed auto

lemma scan_rows_keeps:
  "(\<forall>r \<in> set rs. \<forall>f cs. r = f # cs \<longrightarrow>
       \<not> ((\<exists>kws. (m, kws) \<in> set metric_keywords \<and> any_keyword_in kws (lower (str_cell ops f)))
          \<and> row_values ops cs \<noteq> []))
   \<Longrightarrow> map_of (scan_rows ops rs acc) m = map_of acc m"
proof (induction ops rs acc rule: scan_rows.induct)
  case (3 ops first rest others metric_rows)
  have "map_of (match_metrics ops (lower (str_cell ops first)) rest metric_keywords metric_rows) m
          = map_of metric_rows m"
    using "3.prems" by (simp add: map_of_match_metrics) blast
  moreover have "map_of (scan_rows ops others
        (match_metrics ops (lower (str_cell ops first)) rest metric_keywords metric_rows)) m
      = map_of (match_metrics ops (lower (str_cell ops first)) rest metric_keywords metric_rows) m"
    using "3.prems" by (intro "3.IH") simp
  ultimately show ?case by simp
qed auto

lemma metric_keywords_functional:
  "(m, kws) \<in> set metric_keywords \<Longrightarrow> (m, kws') \<in> set metric_keywords \<Longrightarrow> kws = kws'"
  by (auto simp: metric_keywords_def)

lemma charts_draw_row_charts:
  "charts (draw_row_charts ops project_root entries eff)
     = charts eff @ map (row_chart ops project_root) entries"
  by (induction entries arbitrary: eff) auto

lemma metric_name_row_chart:
  "map metric_name (map (row_chart ops project_root) entries) = map fst entries"
  by (induction entries) (auto simp: row_chart_def split: prod.splits)

section \<open>Which row a metric's chart is drawn from\<close>

text \<open>
  Claim C3, amended. In the row-based fallback, the chart of a metric is drawn from the
  last row, in row order, that matches the metric's keywords and has a non-empty numeric
  series: when a row matches and has a non-empty series, and no later row does both, the
  fallback returns True, the charts it adds have pairwise different metrics (each metric
  is charted at most once), and the chart of the metric has that row's series as values.
\<close>

theorem row_fallback_uses_last_populating_row:
  assumes mk: "(metric, kws) \<in> set metric_keywords"
    and cols: "columns data \<noteq> []"
    and split: "rows data = before @ (first # rest) # after"
    and hit: "any_keyword_in kws (lower (str_cell ops first))"
    and vals: "row_values ops rest \<noteq> []"
    and later: "\<forall>r \<in> set after. \<forall>f cs. r = f # cs \<longrightarrow>
                  any_keyword_in kws (lower (str_cell ops f)) \<longrightarrow> row_values ops cs = []"
  shows "\<exists>eff' added.
           create_graphs_from_row_structure ops project_root data eff = Inr (eff', True)
           \<and> charts eff' = charts eff @ added
           \<and> distinct (map metric_name added)
           \<and> (\<exists>ch \<in> set added. metric_name ch = metric
                  \<and> bar_values ch = map FloatCell (row_values ops rest))"
proof -
  define mr where "mr = scan_rows ops (rows data) []"
  define acc where "acc = scan_rows ops before []"
  define acc1 where
    "acc1 = match_metrics ops (lower (str_cell ops first)) rest metric_keywords acc"
  have mr: "mr = scan_rows ops after acc1"
    unfolding mr_def split acc_def acc1_def by (simp add: scan_rows_append)
  have one: "map_of acc1 metric = Some (row_values ops rest)"
    unfolding acc1_def using mk hit vals by (auto simp: map_of_match_metrics)
  have keep: "\<forall>r \<in> set after. \<forall>f cs. r = f # cs \<longrightarrow>
       \<not> ((\<exists>kws. (metric, kws) \<in> set metric_keywords \<and> any_keyword_in kws (lower (str_cell ops f)))
          \<and> row_values ops cs \<noteq> [])"
    using later metric_keywords_functional [OF mk] by blast
  have "map_of mr metric = map_of acc1 metric"
    unfolding mr using keep by (rule scan_rows_keeps)
  with one have found: "map_of mr metric = Some (row_values ops rest)" by simp
  then have mem: "(metric, row_values ops rest) \<in> set mr" by (rule map_of_SomeD)
  then have ne: "mr \<noteq> []" by auto
  have dist: "distinct (map fst mr)"
    unfolding mr_def by (rule distinct_scan_rows) simp
  define added where "added = map (row_chart ops project_root) mr"
  have res: "create_graphs_from_row_structure ops project_root data eff
          = Inr (draw_row_charts ops project_root mr eff, True)"
    using cols ne by (simp add: create_graphs_from_row_structure_def mr_def Let_def)
  have ch: "charts (draw_row_charts ops project_root mr eff) = charts eff @ added"
    by (simp add: charts_draw_row_charts added_def)
  have d: "distinct (map metric_name added)"
    unfolding added_def using dist by (simp only: metric_name_row_chart)
  have "row_chart ops project_root (metric, row_values ops rest) \<in> set added"
    unfolding added_def using mem by simp
  moreover have "metric_name (row_chart ops project_root (metric, row_values ops rest)) = metric"
    "bar_values (row_chart ops project_root (metric, row_values ops rest))
       = map FloatCell (row_values ops rest)"
    by (simp_all add: row_chart_def)
  ultimately have "\<exists>ch \<in> set added. metric_name ch = metric
                  \<and> bar_values ch = map FloatCell (row_values ops rest)" by blast
  with res ch d show ?thesis by blast
qed

theorem row_fallback_uses_last_populating_row_witness:
  "\<exists>eff' added.
     create_graphs_from_row_structure whole_floats ''/proj''
       \<lparr>columns = [''Metric'', ''Config1''],
        rows = [[StrCell ''Delay A'', IntCell 1]] @ (StrCell ''Delay B'' # [IntCell 2])
                 # [[StrCell ''Delay C'', StrCell ''n/a'']]\<rparr>
       \<lparr>console = [], charts = []\<rparr> = Inr (eff', True)
     \<and> charts eff' = charts \<lparr>console = [], charts = []\<rparr> @ added
     \<and> distinct (map metric_name added)
     \<and> (\<exists>ch \<in> set added. metric_name ch = ''Delay''
            \<and> bar_values ch = map FloatCell (row_values whole_floats [IntCell 2]))"
proof (rule row_fallback_uses_last_populating_row [where kws = "[''delay'']"])
  show "(''Delay'', [''delay'']) \<in> set metric_keywords" by code_simp
  show "columns \<lparr>columns = [''Metric'', ''Config1''],
        rows = [[StrCell ''Delay A'', IntCell 1]] @ (StrCell ''Delay B'' # [IntCell 2])
                 # [[StrCell ''Delay C'', StrCell ''n/a'']]\<rparr> \<noteq> []" by simp
  show "rows \<lparr>columns = [''Metric'', ''Config1''],
        rows = [[StrCell ''Delay A'', IntCell 1]] @ (StrCell ''Delay B'' # [IntCell 2])
                 # [[StrCell ''Delay C'', StrCell ''n/a'']]\<rparr>
        = [[StrCell ''Delay A'', IntCell 1]] @ (StrCell ''Delay B'' # [IntCell 2])
                 # [[StrCell ''Delay C'', StrCell ''n/a'']]" by simp
  show "any_keyword_in [''delay''] (lower (str_cell whole_floats (StrCell ''Delay B'')))"
    by code_simp
  show "row_values whole_floats [IntCell 2] \<noteq> []" by code_simp
  have "row_values whole_floats [StrCell ''n/a''] = []" by code_simp
  then show "\<forall>r \<in> set [[StrCell ''Delay C'', StrCell ''n/a'']]. \<forall>f cs. r = f # cs \<longrightarrow>
      any_keyword_in [''delay''] (lower (str_cell whole_floats f)) \<longrightarrow>
      row_values whole_floats cs = []" by simp
qed

text \<open>
  With two rows matching Delay, the one chart drawn holds the series of the second row and
  not that of the first.
\<close>

theorem row_fallback_first_row_counterexample:
  "map metric_name (saved_charts (sample_run
       \<lparr>columns = [''Metric'', ''Config1''],
        rows = [[StrCell ''Delay A'', IntCell 1], [StrCell ''Delay B'', IntCell 2]]\<rparr>))
     = [''Delay'']
   \<and> map bar_values (saved_charts (sample_run
       \<lparr>columns = [''Metric'', ''Config1''],
        rows = [[StrCell ''Delay A'', IntCell 1], [StrCell ''Delay B'', IntCell 2]]\<rparr>))
     \<noteq> [map FloatCell (row_values whole_floats [IntCell 1])]
   \<and> map bar_values (saved_charts (sample_run
       \<lparr>columns = [''Metric'', ''Config1''],
        rows = [[StrCell ''Delay A'', IntCell 1], [StrCell ''Delay B'', IntCell 2]]\<rparr>))
     = [map FloatCell (row_values whole_floats [IntCell 2])]"
  by code_simp

section \<open>Rows without a readable number\<close>

lemma scan_rows_skip_row:
  "row_values ops rest = [] \<Longrightarrow>
     scan_rows ops ((first # rest) # others) metric_rows = scan_rows ops others metric_rows"
  by (simp add: match_metrics_empty_values)

lemma scan_rows_no_entry:
  assumes mk: "(metric, kws) \<in> set metric_keywords"
    and un: "\<forall>r \<in> set rs. \<forall>f cs. r = f # cs \<longrightarrow>
               any_keyword_in kws (lower (str_cell ops f)) \<longrightarrow>
               (\<forall>c \<in> set cs. float_cell ops c = None)"
  shows "metric \<notin> fst ` set (scan_rows ops rs [])"
proof -
  have "\<forall>r \<in> set rs. \<forall>f cs. r = f # cs \<longrightarrow>
       \<not> ((\<exists>kws. (metric, kws) \<in> set metric_keywords \<and> any_keyword_in kws (lower (str_cell ops f)))
          \<and> row_values ops cs \<noteq> [])"
  proof (intro ballI allI impI notI)
    fix r f cs
    assume r: "r \<in> set rs" "r = f # cs"
      and h: "(\<exists>kws. (metric, kws) \<in> set metric_keywords
                 \<and> any_keyword_in kws (lower (str_cell ops f))) \<and> row_values ops cs \<noteq> []"
    then obtain kws' where k: "(metric, kws') \<in> set metric_keywords"
      "any_keyword_in kws' (lower (str_cell ops f))" by blast
    from k(1) have "kws = kws'" by (rule metric_keywords_functional [OF mk])
    with k(2) r un have "\<forall>c \<in> set cs. float_cell ops c = None" by blast
    then have "row_values ops cs = []" by (rule row_values_all_fail)
    with h show False by simp
  qed
  then have "map_of (scan_rows ops rs []) metric = map_of [] metric"
    by (rule scan_rows_keeps)
  then have "map_of (scan_rows ops rs []) metric = None" by simp
  then show ?thesis by (simp add: map_of_eq_None_iff)
qed

lemma scan_rows_nothing:
  assumes "\<forall>r \<in> set rs. \<forall>f cs. r = f # cs \<longrightarrow>
             (\<forall>(m, kws) \<in> set metric_keywords.
                any_keyword_in kws (lower (str_cell ops f)) \<longrightarrow>
                (\<forall>c \<in> set cs. float_cell ops c = None))"
  shows "scan_rows ops rs [] = []"
proof -
  have "m \<notin> fst ` set (scan_rows ops rs [])" for m
  proof (cases "m \<in> fst ` set metric_keywords")
    case True
    then obtain kws where mk: "(m, kws) \<in> set metric_keywords" by auto
    have "\<forall>r \<in> set rs. \<forall>f cs. r = f # cs \<longrightarrow>
               any_keyword_in kws (lower (str_cell ops f)) \<longrightarrow>
               (\<forall>c \<in> set cs. float_cell ops c = None)"
    proof (intro ballI allI impI)
      fix r f cs c
      assume r: "r \<in> set rs" "r = f # cs"
        and h: "any_keyword_in kws (lower (str_cell ops f))" and c: "c \<in> set cs"
      from assms r have "\<forall>(m, kws) \<in> set metric_keywords.
                any_keyword_in kws (lower (str_cell ops f)) \<longrightarrow>
                (\<forall>c \<in> set cs. float_cell ops c = None)" by simp
      with mk have "any_keyword_in kws (lower (str_cell ops f)) \<longrightarrow>
                (\<forall>c \<in> set cs. float_cell ops c = None)" by fast
      with h c show "float_cell ops c = None" by simp
    qed
    with mk show ?thesis by (rule scan_rows_no_entry)
  next
    case False
    from keys_scan_rows [of ops rs "[]"]
    have "fst ` set (scan_rows ops rs []) \<subseteq> fst ` set metric_keywords" by simp
    with False show ?thesis by (meson subsetD)
  qed
  note none = this
  show ?thesis
  proof (cases "scan_rows ops rs []")
    case Nil
    then show ?thesis .
  next
    case (Cons p ps)
    then have "fst p \<in> fst ` set (scan_rows ops rs [])" by simp
    with none show ?thesis by simp
  qed
qed

text \<open>
  Claim C10. In the row-based fallback, a row whose cells after the first all fail numeric
  coercion has an empty series and is scanned as if it were absent. If every row that
  matches a metric's keywords is such a row, no chart added by the fallback bears that
  metric. If this holds of every metric, the fallback draws nothing and returns False.
\<close>

theorem unreadable_rows_populate_nothing:
  "((\<forall>c \<in> set rest. float_cell ops c = None) \<longrightarrow>
      row_values ops rest = []
      \<and> scan_rows ops ((first # rest) # others) metric_rows = scan_rows ops others metric_rows)
   \<and> ((metric, kws) \<in> set metric_keywords
        \<and> (\<forall>r \<in> set (rows data). \<forall>f cs. r = f # cs \<longrightarrow>
              any_keyword_in kws (lower (str_cell ops f)) \<longrightarrow>
              (\<forall>c \<in> set cs. float_cell ops c = None)) \<longrightarrow>
      (\<forall>eff' found.
         create_graphs_from_row_structure ops project_root data eff = Inr (eff', found) \<longrightarrow>
         (\<exists>added. charts eff' = charts eff @ added \<and> metric \<notin> set (map metric_name added))))
   \<and> (columns data \<noteq> []
        \<and> (\<forall>r \<in> set (rows data). \<forall>f cs. r = f # cs \<longrightarrow>
              (\<forall>(m, kws) \<in> set metric_keywords.
                 any_keyword_in kws (lower (str_cell ops f)) \<longrightarrow>
                 (\<forall>c \<in> set cs. float_cell ops c = None))) \<longrightarrow>
      create_graphs_from_row_structure ops project_root data eff = Inr (eff, False))"
proof (intro conjI impI)
  assume "\<forall>c \<in> set rest. float_cell ops c = None"
  then show e: "row_values ops rest = []" by (rule row_values_all_fail)
  then show "scan_rows ops ((first # rest) # others) metric_rows = scan_rows ops others metric_rows"
    by (rule scan_rows_skip_row)
next
  assume a: "(metric, kws) \<in> set metric_keywords
        \<and> (\<forall>r \<in> set (rows data). \<forall>f cs. r = f # cs \<longrightarrow>
              any_keyword_in kws (lower (str_cell ops f)) \<longrightarrow>
              (\<forall>c \<in> set cs. float_cell ops c = None))"
  then have no: "metric \<notin> fst ` set (scan_rows ops (rows data) [])"
    using scan_rows_no_entry [of metric kws "rows data" ops] by blast
  show "\<forall>eff' found.
         create_graphs_from_row_structure ops project_root data eff = Inr (eff', found) \<longrightarrow>
         (\<exists>added. charts eff' = charts eff @ added \<and> metric \<notin> set (map metric_name added))"
  proof (intro allI impI)
    fix eff' found
    assume r: "create_graphs_from_row_structure ops project_root data eff = Inr (eff', found)"
    show "\<exists>added. charts eff' = charts eff @ added \<and> metric \<notin> set (map metric_name added)"
    proof (cases "scan_rows ops (rows data) [] = []")
      case True
      with r have "eff' = eff"
        by (auto simp: create_graphs_from_row_structure_def Let_def split: if_splits)
      then have "charts eff' = charts eff @ [] \<and> metric \<notin> set (map metric_name [])" by simp
      then show ?thesis by blast
    next
      case False
      with r have "eff' = draw_row_charts ops project_root (scan_rows ops (rows data) []) eff"
        by (auto simp: create_graphs_from_row_structure_def Let_def split: if_splits)
      then have "charts eff' = charts eff @ map (row_chart ops project_root) (scan_rows ops (rows data) [])"
        by (simp add: charts_draw_row_charts)
      moreover have "set (map metric_name
           (map (row_chart ops project_root) (scan_rows ops (rows data) [])))
           = fst ` set (scan_rows ops (rows data) [])"
        unfolding metric_name_row_chart by simp
      then have "metric \<notin> set (map metric_name
           (map (row_chart ops project_root) (scan_rows ops (rows data) [])))"
        using no by (simp only: not_False_eq_True)
      ultimately show ?thesis by blast
    qed
  qed
next
  assume a: "columns data \<noteq> []
        \<and> (\<forall>r \<in> set (rows data). \<forall>f cs. r = f # cs \<longrightarrow>
              (\<forall>(m, kws) \<in> set metric_keywords.
                 any_keyword_in kws (lower (str_cell ops f)) \<longrightarrow>
                 (\<forall>c \<in> set cs. float_cell ops c = None)))"
  then have "scan_rows ops (rows data) [] = []"
    using scan_rows_nothing [of "rows data" ops] by blast
  with a show "create_graphs_from_row_structure ops project_root data eff = Inr (eff, False)"
    by (simp add: create_graphs_from_row_structure_def)
qed

theorem unreadable_rows_populate_nothing_witness:
  "row_values whole_floats [StrCell ''n/a'', StrCell ''-''] = []
   \<and> create_graphs_from_row_structure whole_floats ''/proj''
        \<lparr>columns = [''Metric'', ''Config1'', ''Config2''],
         rows = [[StrCell ''Energy'', StrCell ''n/a'', StrCell ''-'']]\<rparr>
        \<lparr>console = [], charts = []\<rparr>
       = Inr (\<lparr>console = [], charts = []\<rparr>, False)
   \<and> (\<exists>added. charts \<lparr>console = [], charts = ([] :: int chart list)\<rparr>
                  = charts \<lparr>console = [], charts = []\<rparr> @ added
          \<and> ''Energy'' \<notin> set (map metric_name added))"
proof -
  define data :: "int dataframe" where "data =
        \<lparr>columns = [''Metric'', ''Config1'', ''Config2''],
         rows = [[StrCell ''Energy'', StrCell ''n/a'', StrCell ''-'']]\<rparr>"
  define eff :: "int effects" where "eff = \<lparr>console = [], charts = []\<rparr>"
  have f1: "float_of_str whole_floats ''n/a'' = None" by code_simp
  have f2: "float_of_str whole_floats ''-'' = None" by code_simp
  have h1: "\<forall>c \<in> set [StrCell ''n/a'', StrCell ''-'']. float_cell whole_floats c = None"
    by (simp add: f1 f2)
  have m: "(''Energy'', [''energy'', ''power'']) \<in> set metric_keywords" by code_simp
  have h2: "\<forall>r \<in> set (rows data). \<forall>f cs. r = f # cs \<longrightarrow>
              any_keyword_in [''energy'', ''power''] (lower (str_cell whole_floats f)) \<longrightarrow>
              (\<forall>c \<in> set cs. float_cell whole_floats c = None)"
    by (simp add: data_def f1 f2)
  have h3: "\<forall>r \<in> set (rows data). \<forall>f cs. r = f # cs \<longrightarrow>
              (\<forall>(m, kws) \<in> set metric_keywords.
                 any_keyword_in kws (lower (str_cell whole_floats f)) \<longrightarrow>
                 (\<forall>c \<in> set cs. float_cell whole_floats c = None))"
    by (simp add: data_def f1 f2)
  have c: "columns data \<noteq> []" by (simp add: data_def)
  note t = unreadable_rows_populate_nothing
      [of "[StrCell ''n/a'', StrCell ''-'']" whole_floats "StrCell ''Energy''" "[]" "[]"
          "''Energy''" "[''energy'', ''power'']" data "''/proj''" eff]
  from t h1 have a: "row_values whole_floats [StrCell ''n/a'', StrCell ''-''] = []" by blast
  from t c h3 have b: "create_graphs_from_row_structure whole_floats ''/proj'' data eff = Inr (eff, False)"
    by blast
  from t m h2 b have "\<exists>added. charts eff = charts eff @ added \<and> ''Energy'' \<notin> set (map metric_name added)"
    by blast
  with a b show ?thesis unfolding data_def eff_def by simp
qed

section \<open>The column-based renderer: values and labels\<close>

lemma find_column_in_mem: "find_column_in cols K = Some c \<Longrightarrow> c \<in> set cols"
  by (induction cols) (auto split: if_splits)

lemma column_index_first: "cols \<noteq> [] \<Longrightarrow> column_index cols (cols ! 0) = 0"
  by (cases cols) (simp_all add: column_index_def)

lemma create_bar_graph_found:
  assumes "find_column data kws = Some metric_col"
  shows "charts (create_bar_graph ops project_root data metric kws ylabel title color eff)
     = charts eff @
        [\<lparr>metric_name = metric, bar_values = column_values data metric_col,
          tick_labels =
            (if length (columns data) > 1 \<and> columns data ! 0 \<noteq> metric_col
             then column_values data (columns data ! 0)
             else config_labels (length (rows data))),
          bar_texts = map (bar_text ops) (column_values data metric_col),
          chart_title = title, chart_ylabel = ylabel, bar_color = color,
          output_file = path_join project_root (output_name metric)\<rparr>]"
  using assms by (simp add: create_bar_graph_def Let_def column_values_def)

lemma create_bar_graph_missing:
  "find_column data kws = None \<Longrightarrow>
     charts (create_bar_graph ops project_root data metric kws ylabel title color eff) = charts eff"
  by (simp add: create_bar_graph_def)

text \<open>
  Claim C8. When \<^verbatim>\<open>create_bar_graph\<close> finds its metric column it draws one chart, whose
  values are the cells of that column and whose category labels are the cells of the
  frame's first column if the first column is not the metric column, and the synthesized
  labels "Config 1", "Config 2", ... (one per row) otherwise; a frame with a single
  column always gets the synthesized labels.
\<close>

theorem column_renderer_labels:
  assumes "find_column data kws = Some metric_col"
  shows "\<exists>ch. charts (create_bar_graph ops project_root data metric kws ylabel title color eff)
               = charts eff @ [ch]
          \<and> bar_values ch = map (\<lambda>row. row ! column_index (columns data) metric_col) (rows data)
          \<and> tick_labels ch =
               (if columns data ! 0 \<noteq> metric_col
                then map (\<lambda>row. row ! 0) (rows data)
                else map (\<lambda>i. StrCell (''Config '' @ str_nat (i + 1))) [0..<length (rows data)])
          \<and> (length (columns data) = 1 \<longrightarrow>
                tick_labels ch
                  = map (\<lambda>i. StrCell (''Config '' @ str_nat (i + 1))) [0..<length (rows data)])"
proof -
  from assms have mem: "metric_col \<in> set (columns data)"
    by (simp add: find_column_def find_column_in_mem)
  then have ne: "columns data \<noteq> []" by auto
  have single: "columns data ! 0 = metric_col" if "\<not> length (columns data) > 1"
  proof -
    from that ne obtain c where c: "columns data = [c]"
      by (cases "columns data") auto
    with mem show ?thesis by simp
  qed
  have first: "column_values data (columns data ! 0) = map (\<lambda>row. row ! 0) (rows data)"
    using ne by (simp add: column_values_def column_index_first)
  define ch where "ch = last (charts (create_bar_graph ops project_root data metric kws ylabel title color eff))"
  have c: "charts (create_bar_graph ops project_root data metric kws ylabel title color eff)
               = charts eff @ [ch]"
    unfolding ch_def by (simp add: create_bar_graph_found [OF assms])
  have v: "bar_values ch = map (\<lambda>row. row ! column_index (columns data) metric_col) (rows data)"
    unfolding ch_def by (simp add: create_bar_graph_found [OF assms] column_values_def)
  have l: "tick_labels ch =
               (if columns data ! 0 \<noteq> metric_col
                then map (\<lambda>row. row ! 0) (rows data)
                else map (\<lambda>i. StrCell (''Config '' @ str_nat (i + 1))) [0..<length (rows data)])"
    unfolding ch_def using single first
    by (auto simp: create_bar_graph_found [OF assms] config_labels_def)
  have s: "length (columns data) = 1 \<longrightarrow>
                tick_labels ch
                  = map (\<lambda>i. StrCell (''Config '' @ str_nat (i + 1))) [0..<length (rows data)]"
    using l single by simp
  from c v l s show ?thesis by blast
qed

theorem column_renderer_labels_witness:
  "(\<exists>ch. charts (create_bar_graph whole_floats ''/proj''
              \<lparr>columns = [''Configuration'', ''Delay''],
               rows = [[StrCell ''Fog'', IntCell 50], [StrCell ''Cloud'', IntCell 55]]\<rparr>
              ''Delay'' [''delay''] ''Delay (ms)'' ''Delay Comparison'' ''green''
              \<lparr>console = [], charts = []\<rparr>) = [ch]
        \<and> bar_values ch = [IntCell 50, IntCell 55]
        \<and> tick_labels ch = [StrCell ''Fog'', StrCell ''Cloud''])
   \<and> (\<exists>ch. charts (create_bar_graph whole_floats ''/proj''
              \<lparr>columns = [''Delay''], rows = [[IntCell 50], [IntCell 55]]\<rparr>
              ''Delay'' [''delay''] ''Delay (ms)'' ''Delay Comparison'' ''green''
              \<lparr>console = [], charts = []\<rparr>) = [ch]
        \<and> bar_values ch = [IntCell 50, IntCell 55]
        \<and> tick_labels ch = [StrCell ''Config 1'', StrCell ''Config 2''])"
proof -
  have f1: "find_column \<lparr>columns = [''Configuration'', ''Delay''],
               rows = [[StrCell ''Fog'', IntCell 50], [StrCell ''Cloud'', IntCell (55 :: int)]]\<rparr>
              [''delay''] = Some ''Delay''" by code_simp
  have f2: "find_column \<lparr>columns = [''Delay''], rows = [[IntCell 50], [IntCell (55 :: int)]]\<rparr>
              [''delay''] = Some ''Delay''" by code_simp
  have i: "column_index [''Configuration'', ''Delay''] ''Delay'' = 1"
    "column_index [''Delay''] ''Delay'' = 0" by code_simp+
  have n: "str_nat (Suc 0) = ''1''" "str_nat (Suc (Suc 0)) = ''2''" "str_nat 2 = ''2''" by code_simp+
  have u: "[0..<2] = [0, Suc 0]" by code_simp
  show ?thesis
    using column_renderer_labels [OF f1, of whole_floats "''/proj''" "''Delay''" "''Delay (ms)''"
        "''Delay Comparison''" "''green''" "\<lparr>console = [], charts = []\<rparr>"]
      column_renderer_labels [OF f2, of whole_floats "''/proj''" "''Delay''" "''Delay (ms)''"
        "''Delay Comparison''" "''green''" "\<lparr>console = [], charts = []\<rparr>"]
    by (simp add: i n u)
qed

section \<open>The files that charts are saved to\<close>

lemma output_names:
  "output_name ''Execution Time'' = ''execution_time_graph.png''"
  "output_name ''Delay'' = ''delay_graph.png''"
  "output_name ''Energy'' = ''energy_graph.png''"
  "output_name ''Network Usage'' = ''network_usage_graph.png''"
  by code_simp+

lemma metric_names: 
  "fst ` set metric_keywords = {''Execution Time'', ''Delay'', ''Energy'', ''Network Usage''}"
  by (simp add: metric_keywords_def)

lemma create_bar_graph_charts:
  assumes "\<forall>ch \<in> set (charts eff). P ch"
    and "\<And>v l t. P \<lparr>metric_name = metric, bar_values = v, tick_labels = l, bar_texts = t,
            chart_title = title, chart_ylabel = ylabel, bar_color = color,
            output_file = path_join project_root (output_name metric)\<rparr>"
  shows "\<forall>ch \<in> set (charts (create_bar_graph ops project_root data metric kws ylabel title color eff)). P ch"
proof (cases "find_column data kws")
  case None
  then show ?thesis using assms(1) by (simp add: create_bar_graph_missing)
next
  case (Some metric_col)
  show ?thesis
    unfolding create_bar_graph_found [OF Some] using assms by simp
qed

lemma conditional_graph_charts:
  assumes "\<forall>ch \<in> set (charts eff). P ch"
    and "\<And>v l t. P \<lparr>metric_name = metric, bar_values = v, tick_labels = l, bar_texts = t,
            chart_title = title, chart_ylabel = ylabel, bar_color = color,
            output_file = path_join project_root (output_name metric)\<rparr>"
  shows "\<forall>ch \<in> set (charts (if b then
            create_bar_graph ops project_root data metric kws ylabel title color eff
          else eff)). P ch"
proof (cases b)
  case True
  have "\<forall>ch \<in> set (charts
          (create_bar_graph ops project_root data metric kws ylabel title color eff)). P ch"
    using assms by (rule create_bar_graph_charts)
  with True show ?thesis by simp
next
  case False
  with assms(1) show ?thesis by simp
qed

lemma column_branch_charts:
  assumes "\<forall>ch \<in> set (charts eff). P ch"
    and "\<And>m v l t ti y c. m \<in> fst ` set metric_keywords \<Longrightarrow>
           P \<lparr>metric_name = m, bar_values = v, tick_labels = l, bar_texts = t,
            chart_title = ti, chart_ylabel = y, bar_color = c,
            output_file = path_join project_root (output_name m)\<rparr>"
  shows "\<forall>ch \<in> set (charts (column_branch ops project_root data e d g n eff)). P ch"
proof -
  have k: "''Execution Time'' \<in> fst ` set metric_keywords" "''Delay'' \<in> fst ` set metric_keywords"
    "''Energy'' \<in> fst ` set metric_keywords" "''Network Usage'' \<in> fst ` set metric_keywords"
    unfolding metric_names by simp_all
  define eff1 where "eff1 = (if truthy e then
                    create_bar_graph ops project_root data ''Execution Time''
                      [''execution'', ''time''] ''Execution Time (ms)''
                      ''Execution Time Comparison'' ''steelblue'' eff
                  else eff)"
  define eff2 where "eff2 = (if truthy d then
                    create_bar_graph ops project_root data ''Delay''
                      [''delay''] ''Delay (ms)'' ''Delay Comparison'' ''green'' eff1
                  else eff1)"
  define eff3 where "eff3 = (if truthy g then
                    create_bar_graph ops project_root data ''Energy''
                      [''energy'', ''power''] ''Energy Consumption (J)''
                      ''Energy Consumption Comparison'' ''purple'' eff2
                  else eff2)"
  define eff4 where "eff4 = (if truthy n then
            create_bar_graph ops project_root data ''Network Usage''
              [''network'', ''usage''] ''Network Usage (Bytes)''
              ''Network Usage Comparison'' ''orange'' eff3
          else eff3)"
  have 1: "\<forall>ch \<in> set (charts eff1). P ch"
    unfolding eff1_def using assms(1) assms(2) [OF k(1)] by (rule conditional_graph_charts)
  have 2: "\<forall>ch \<in> set (charts eff2). P ch"
    unfolding eff2_def using 1 assms(2) [OF k(2)] by (rule conditional_graph_charts)
  have 3: "\<forall>ch \<in> set (charts eff3). P ch"
    unfolding eff3_def using 2 assms(2) [OF k(3)] by (rule conditional_graph_charts)
  have 4: "\<forall>ch \<in> set (charts eff4). P ch"
    unfolding eff4_def using 3 assms(2) [OF k(4)] by (rule conditional_graph_charts)
  have "column_branch ops project_root data e d g n eff = eff4"
    unfolding column_branch_def eff4_def eff3_def eff2_def eff1_def Let_def ..
  with 4 show ?thesis by simp
qed

lemma row_structure_charts:
  assumes "create_graphs_from_row_structure ops project_root data eff = Inr (eff', found)"
  shows "charts eff' = charts eff @ map (row_chart ops project_root) (scan_rows ops (rows data) [])"
proof (cases "scan_rows ops (rows data) [] = []")
  case True
  with assms have "eff' = eff"
    by (auto simp: create_graphs_from_row_structure_def Let_def split: if_splits)
  with True show ?thesis by simp
next
  case False
  with assms have "eff' = draw_row_charts ops project_root (scan_rows ops (rows data) []) eff"
    by (auto simp: create_graphs_from_row_structure_def Let_def split: if_splits)
  then show ?thesis by (simp add: charts_draw_row_charts)
qed

lemma row_chart_property:
  assumes "\<And>m v l t ti y c. m \<in> fst ` set metric_keywords \<Longrightarrow>
           P \<lparr>metric_name = m, bar_values = v, tick_labels = l, bar_texts = t,
            chart_title = ti, chart_ylabel = y, bar_color = c,
            output_file = path_join project_root (output_name m)\<rparr>"
  shows "\<forall>ch \<in> set (map (row_chart ops project_root) (scan_rows ops rs [])). P ch"
proof
  fix ch
  assume "ch \<in> set (map (row_chart ops project_root) (scan_rows ops rs []))"
  then obtain m vs where e: "(m, vs) \<in> set (scan_rows ops rs [])"
    and ch: "ch = row_chart ops project_root (m, vs)" by auto
  from e have "m \<in> fst ` set (scan_rows ops rs [])" by (rule image_eqI [rotated]) simp
  with keys_scan_rows [of ops rs "[]"] have "m \<in> fst ` set metric_keywords"
    by (simp add: subset_iff)
  then show "P ch" unfolding ch row_chart_def prod.case by (rule assms)
qed

lemma visualize_charts:
  assumes "\<And>m v l t ti y c. m \<in> fst ` set metric_keywords \<Longrightarrow>
           P \<lparr>metric_name = m, bar_values = v, tick_labels = l, bar_texts = t,
            chart_title = ti, chart_ylabel = y, bar_color = c,
            output_file = path_join project_root (output_name m)\<rparr>"
    and "charts eff0 = []"
  shows "\<forall>ch \<in> set (saved_charts (visualize ops project_root data eff0)). P ch"
proof -
  define eff where "eff = eff0\<lparr>console := console eff0 @
                   [Line (CHR 0x0A # banner 50),
                    Line ''Creating Visualization Graphs'',
                    Line (banner 50 @ [CHR 0x0A])]\<rparr>"
  define effc where "effc = eff\<lparr>console := console eff @
                           [Line (''Detected column-based CSV structure'' @ [CHR 0x0A])]\<rparr>"
  define effr where "effr = eff\<lparr>console := console eff @
                        [Line (''Trying row-based CSV structure'' @ [CHR 0x0A])]\<rparr>"
  have c0: "charts effc = []" "charts effr = []"
    unfolding effc_def effr_def eff_def using assms(2) by simp_all
  show ?thesis
  proof (cases "truthy (find_column data [''execution'', ''time'', ''exec''])
      \<or> truthy (find_column data [''delay''])
      \<or> truthy (find_column data [''energy'', ''power''])
      \<or> truthy (find_column data [''network'', ''usage'', ''bandwidth''])")
    case True
    then have v: "saved_charts (visualize ops project_root data eff0) =
      charts (column_branch ops project_root data
         (find_column data [''execution'', ''time'', ''exec''])
         (find_column data [''delay''])
         (find_column data [''energy'', ''power''])
         (find_column data [''network'', ''usage'', ''bandwidth'']) effc)"
      unfolding visualize_def Let_def effc_def eff_def by simp
    have "\<forall>ch \<in> set (charts effc). P ch" using c0 by simp
    then show ?thesis unfolding v using assms(1) by (rule column_branch_charts)
  next
    case False
    show ?thesis
    proof (cases "create_graphs_from_row_structure ops project_root data effr")
      case (Inl err)
      with False have "saved_charts (visualize ops project_root data eff0) = charts effr"
        unfolding visualize_def Let_def effr_def eff_def by simp
      with c0 show ?thesis by simp
    next
      case (Inr res)
      obtain eff' found where res: "res = (eff', found)" by (cases res)
      from False Inr res have "saved_charts (visualize ops project_root data eff0) = charts eff'"
        unfolding visualize_def Let_def effr_def eff_def by simp
      also have "\<dots> = map (row_chart ops project_root) (scan_rows ops (rows data) [])"
        using row_structure_charts [OF Inr [unfolded res]] c0 by simp
      finally show ?thesis using row_chart_property [of P project_root ops "rows data", OF assms(1)]
        by simp
    qed
  qed
qed

lemma main_charts:
  assumes "\<And>m v l t ti y c. m \<in> fst ` set metric_keywords \<Longrightarrow>
           P \<lparr>metric_name = m, bar_values = v, tick_labels = l, bar_texts = t,
            chart_title = ti, chart_ylabel = y, bar_color = c,
            output_file = path_join project_root (output_name m)\<rparr>"
  shows "\<forall>ch \<in> set (saved_charts (main ops project_root path_exists read_csv)). P ch"
proof (cases "first_existing path_exists (possible_locations project_root)")
  case None
  then show ?thesis by (simp add: main_def)
next
  case (Some csv_file)
  show ?thesis
  proof (cases "read_csv csv_file")
    case (Inl e)
    with Some show ?thesis by (simp add: main_def)
  next
    case (Inr data)
    have "\<forall>ch \<in> set (saved_charts (visualize ops project_root data
                 \<lparr>console =
                    [Line (''Reading data from: '' @ csv_file),
                     Line ''CSV file loaded successfully!'',
                     LineWithColumns ''Columns found: '' (columns data),
                     Line (CHR 0x0A # ''First few rows:''),
                     Preview (take 5 (rows data))],
                  charts = []\<rparr>)). P ch"
      by (rule visualize_charts [where P = P, OF assms]) simp_all
    with Some Inr show ?thesis by (simp add: main_def)
  qed
qed

lemma saved_chart_file_names:
  "\<forall>ch \<in> set (saved_charts (main ops project_root path_exists read_csv)).
     output_file ch
       = path_join project_root (lower (replace_space (metric_name ch)) @ ''_graph.png'')
     \<and> lower (replace_space (metric_name ch)) @ ''_graph.png''
         \<in> {''execution_time_graph.png'', ''delay_graph.png'',
             ''energy_graph.png'', ''network_usage_graph.png''}"
proof (rule main_charts)
  fix m :: string and v l :: "'a cell list" and t :: "string list" and ti y c :: string
  assume "m \<in> fst ` set metric_keywords"
  then have "m = ''Execution Time'' \<or> m = ''Delay'' \<or> m = ''Energy'' \<or> m = ''Network Usage''"
    unfolding metric_names by simp
  then have "output_name m \<in> {''execution_time_graph.png'', ''delay_graph.png'',
             ''energy_graph.png'', ''network_usage_graph.png''}"
    using output_names by auto
  then show "output_file \<lparr>metric_name = m, bar_values = v, tick_labels = l, bar_texts = t,
            chart_title = ti, chart_ylabel = y, bar_color = c,
            output_file = path_join project_root (output_name m)\<rparr>
       = path_join project_root (lower (replace_space (metric_name
           \<lparr>metric_name = m, bar_values = v, tick_labels = l, bar_texts = t,
            chart_title = ti, chart_ylabel = y, bar_color = c,
            output_file = path_join project_root (output_name m)\<rparr>)) @ ''_graph.png'')
     \<and> lower (replace_space (metric_name \<lparr>metric_name = m, bar_values = v, tick_labels = l, bar_texts = t,
            chart_title = ti, chart_ylabel = y, bar_color = c,
            output_file = path_join project_root (output_name m)\<rparr>)) @ ''_graph.png''
         \<in> {''execution_time_graph.png'', ''delay_graph.png'',
             ''energy_graph.png'', ''network_usage_graph.png''}"
    by (simp add: output_name_def)
qed

section \<open>The locator\<close>






section \<open>A frame in which nothing is recognized\<close>

lemma row_structure_returns_False:
  assumes "create_graphs_from_row_structure ops project_root data eff = Inr (eff', False)"
  shows "create_graphs_from_row_structure ops project_root data eff1 = Inr (eff1, False)"
proof -
  from assms have "columns data \<noteq> []" and "scan_rows ops (rows data) [] = []"
    by (auto simp: create_graphs_from_row_structure_def Let_def split: if_splits)
  then show ?thesis by (simp add: create_graphs_from_row_structure_def)
qed

text \<open>
  Claim C6. If the file is located and parsed, none of the four top-level classifications
  finds a column, and the row-based fallback returns False, then the run saves no chart,
  ends with the format guidance (which shows the column-based and the row-based shape)
  followed by the closing lines, and exits with status 0.
\<close>

theorem unrecognized_format_exits_zero:
  assumes located: "first_existing path_exists (possible_locations project_root) = Some csv_file"
    and parsed: "read_csv csv_file = Inr data"
    and no_execution: "\<not> truthy (find_column data [''execution'', ''time'', ''exec''])"
    and no_delay: "\<not> truthy (find_column data [''delay''])"
    and no_energy: "\<not> truthy (find_column data [''energy'', ''power''])"
    and no_network: "\<not> truthy (find_column data [''network'', ''usage'', ''bandwidth''])"
    and no_rows: "create_graphs_from_row_structure ops project_root data eff = Inr (eff', False)"
  shows "saved_charts (main ops project_root path_exists read_csv) = []
     \<and> exit_code (main ops project_root path_exists read_csv) = 0
     \<and> (\<exists>before. printed_lines (main ops project_root path_exists read_csv)
            = before @ format_guidance @ closing_lines)
     \<and> Line ''  Configuration, Execution Time, Delay, Energy, Network Usage''
           \<in> set (printed_lines (main ops project_root path_exists read_csv))
     \<and> Line ''  Config1, 100, 50, 200, 1000''
           \<in> set (printed_lines (main ops project_root path_exists read_csv))
     \<and> Line ''  Metric, Config1, Config2, Config3''
           \<in> set (printed_lines (main ops project_root path_exists read_csv))
     \<and> Line ''  Execution Time, 100, 120, 110''
           \<in> set (printed_lines (main ops project_root path_exists read_csv))"
proof -
  define eff0 :: "'a effects" where "eff0 =
                 \<lparr>console =
                    [Line (''Reading data from: '' @ csv_file),
                     Line ''CSV file loaded successfully!'',
                     LineWithColumns ''Columns found: '' (columns data),
                     Line (CHR 0x0A # ''First few rows:''),
                     Preview (take 5 (rows data))],
                  charts = []\<rparr>"
  define eff1 where "eff1 = eff0\<lparr>console := console eff0 @
                   [Line (CHR 0x0A # banner 50),
                    Line ''Creating Visualization Graphs'',
                    Line (banner 50 @ [CHR 0x0A]),
                    Line (''Trying row-based CSV structure'' @ [CHR 0x0A])]\<rparr>"
  have m: "main ops project_root path_exists read_csv = visualize ops project_root data eff0"
    using located parsed by (simp add: main_def eff0_def)
  have r: "create_graphs_from_row_structure ops project_root data eff1 = Inr (eff1, False)"
    using no_rows by (rule row_structure_returns_False)
  have v: "visualize ops project_root data eff0 =
      \<lparr>printed_lines = console eff1 @ format_guidance @ closing_lines,
       saved_charts = charts eff1, exit_code = 0\<rparr>"
    using no_execution no_delay no_energy no_network r
    by (simp add: visualize_def Let_def eff1_def)
  have c: "charts eff1 = []" by (simp add: eff1_def eff0_def)
  have g: "Line ''  Configuration, Execution Time, Delay, Energy, Network Usage''
             \<in> set (format_guidance :: 'a printed list)"
    "Line ''  Config1, 100, 50, 200, 1000'' \<in> set (format_guidance :: 'a printed list)"
    "Line ''  Metric, Config1, Config2, Config3'' \<in> set (format_guidance :: 'a printed list)"
    "Line ''  Execution Time, 100, 120, 110'' \<in> set (format_guidance :: 'a printed list)"
    by (simp_all add: format_guidance_def)
  have p: "printed_lines (main ops project_root path_exists read_csv)
      = console eff1 @ format_guidance @ closing_lines"
    unfolding m v by simp
  have "\<exists>before. printed_lines (main ops project_root path_exists read_csv)
            = before @ format_guidance @ closing_lines"
    using p by blast
  moreover have "saved_charts (main ops project_root path_exists read_csv) = []"
    unfolding m v using c by simp
  moreover have "exit_code (main ops project_root path_exists read_csv) = 0"
    unfolding m v by simp
  moreover have "x \<in> set (format_guidance :: 'a printed list) \<Longrightarrow>
      x \<in> set (printed_lines (main ops project_root path_exists read_csv))" for x
    unfolding p by simp
  ultimately show ?thesis using g by blast
qed

theorem unrecognized_format_exits_zero_witness:
  "saved_charts (sample_run \<lparr>columns = [''Name'', ''Value''],
                              rows = [[StrCell ''alpha'', IntCell 1]]\<rparr>) = []
   \<and> exit_code (sample_run \<lparr>columns = [''Name'', ''Value''],
                              rows = [[StrCell ''alpha'', IntCell 1]]\<rparr>) = 0
   \<and> Line ''  Config1, 100, 50, 200, 1000''
         \<in> set (printed_lines (sample_run \<lparr>columns = [''Name'', ''Value''],
                              rows = [[StrCell ''alpha'', IntCell 1]]\<rparr>))
   \<and> Line ''  Execution Time, 100, 120, 110''
         \<in> set (printed_lines (sample_run \<lparr>columns = [''Name'', ''Value''],
                              rows = [[StrCell ''alpha'', IntCell 1]]\<rparr>))"
proof -
  define data :: "int dataframe" where
    "data = \<lparr>columns = [''Name'', ''Value''], rows = [[StrCell ''alpha'', IntCell 1]]\<rparr>"
  have located: "first_existing (\<lambda>p. p = ''/proj/results.csv'') (possible_locations ''/proj'')
      = Some ''/proj/results.csv''" by code_simp
  have parsed: "(\<lambda>p. Inr data :: string + int dataframe) ''/proj/results.csv'' = Inr data" by simp
  have c1: "\<not> truthy (find_column data [''execution'', ''time'', ''exec''])"
    unfolding data_def by code_simp
  have c2: "\<not> truthy (find_column data [''delay''])"
    unfolding data_def by code_simp
  have c3: "\<not> truthy (find_column data [''energy'', ''power''])"
    unfolding data_def by code_simp
  have c4: "\<not> truthy (find_column data [''network'', ''usage'', ''bandwidth''])"
    unfolding data_def by code_simp
  have r: "create_graphs_from_row_structure whole_floats ''/proj'' data \<lparr>console = [], charts = []\<rparr>
      = Inr (\<lparr>console = [], charts = []\<rparr>, False)"
    unfolding data_def by code_simp
  show ?thesis
    using unrecognized_format_exits_zero [OF located parsed c1 c2 c3 c4 r, folded sample_run_def]
    unfolding data_def by blast
qed

section \<open>Runs of the column-based branch on concrete frames\<close>

text \<open>
  Claim C2. On a frame with the columns \<^verbatim>\<open>Configuration\<close>, \<^verbatim>\<open>Exec (ms)\<close> and
  \<^verbatim>\<open>Bandwidth\<close>, the top-level classification finds \<^verbatim>\<open>Exec (ms)\<close> for Execution Time
  (keyword exec) and \<^verbatim>\<open>Bandwidth\<close> for Network Usage (keyword bandwidth), but the calls of
  \<^verbatim>\<open>create_bar_graph\<close> search with the shorter lists execution/time and network/usage:
  the run prints a warning for each of the two metrics, saves no chart and exits with
  status 0.
\<close>

theorem short_keyword_list_drops_classified_metric:
  "find_column \<lparr>columns = [''Configuration'', ''Exec (ms)'', ''Bandwidth''],
                 rows = [[StrCell ''Config1'', IntCell 100, IntCell (1000 :: int)]]\<rparr>
       [''execution'', ''time'', ''exec''] = Some ''Exec (ms)''
   \<and> find_column \<lparr>columns = [''Configuration'', ''Exec (ms)'', ''Bandwidth''],
                 rows = [[StrCell ''Config1'', IntCell 100, IntCell (1000 :: int)]]\<rparr>
       [''network'', ''usage'', ''bandwidth''] = Some ''Bandwidth''
   \<and> saved_charts (sample_run \<lparr>columns = [''Configuration'', ''Exec (ms)'', ''Bandwidth''],
                 rows = [[StrCell ''Config1'', IntCell 100, IntCell 1000]]\<rparr>) = []
   \<and> exit_code (sample_run \<lparr>columns = [''Configuration'', ''Exec (ms)'', ''Bandwidth''],
                 rows = [[StrCell ''Config1'', IntCell 100, IntCell 1000]]\<rparr>) = 0
   \<and> Line ''Warning: Could not find column for Execution Time''
       \<in> set (printed_lines (sample_run
             \<lparr>columns = [''Configuration'', ''Exec (ms)'', ''Bandwidth''],
              rows = [[StrCell ''Config1'', IntCell 100, IntCell 1000]]\<rparr>))
   \<and> Line ''Warning: Could not find column for Network Usage''
       \<in> set (printed_lines (sample_run
             \<lparr>columns = [''Configuration'', ''Exec (ms)'', ''Bandwidth''],
              rows = [[StrCell ''Config1'', IntCell 100, IntCell 1000]]\<rparr>))"
  by code_simp

text \<open>
  Claim C9. On the one-row dataset \<^verbatim>\<open>Config1, 100, 50, 200, 1000\<close> of the specification
  the four bars hold integer cells, for which the \<^verbatim>\<open>isinstance\<close> test fails, and their
  texts are \<^verbatim>\<open>100\<close>, \<^verbatim>\<open>50\<close>, \<^verbatim>\<open>200\<close> and \<^verbatim>\<open>1000\<close>, whereas two decimal places
  would give \<^verbatim>\<open>100.00\<close> for the first.
\<close>

theorem integer_bar_text_has_no_decimals:
  "map bar_texts (saved_charts (sample_run column_example))
     = [[''100''], [''50''], [''200''], [''1000'']]
   \<and> map bar_values (saved_charts (sample_run column_example))
     = [[IntCell 100], [IntCell 50], [IntCell 200], [IntCell 1000]]
   \<and> format_2f whole_floats (float_of_int whole_floats 100) = ''100.00''"
  by code_simp

section \<open>Which metrics get a chart\<close>

lemma keyword_hit_mono:
  "keyword_hit col_lower short \<Longrightarrow> set short \<subseteq> set long \<Longrightarrow> keyword_hit col_lower long"
  unfolding keyword_hit_iff by blast

lemma lower_empty_iff: "lower s = [] \<longleftrightarrow> s = []"
  by (simp add: lower_def)

lemma keyword_hit_empty_column:
  "[] \<notin> set kws \<Longrightarrow> \<not> keyword_hit [] kws"
  unfolding keyword_hit_iff by (auto simp: lower_empty_iff)

lemma short_list_classifies:
  assumes found: "find_column data short \<noteq> None"
    and sub: "set short \<subseteq> set long"
    and ne: "[] \<notin> set long"
  shows "truthy (find_column data long)"
proof -
  from found obtain c where c: "c \<in> set (columns data)" "keyword_hit (lower c) short"
    unfolding find_column_def find_column_in_None by blast
  then have "keyword_hit (lower c) long" using sub by (simp add: keyword_hit_mono)
  with c(1) have "find_column data long \<noteq> None"
    unfolding find_column_def find_column_in_None by blast
  then obtain c' where c': "find_column data long = Some c'" by blast
  then have "keyword_hit (lower c') long"
    unfolding find_column_def find_column_in_Some by blast
  with ne have "lower c' \<noteq> []" using keyword_hit_empty_column by metis
  then have "c' \<noteq> []" by (simp add: lower_empty_iff)
  with c' show ?thesis by simp
qed

lemma create_bar_graph_names:
  "map metric_name (charts (create_bar_graph ops project_root data metric kws ylabel title color eff))
     = map metric_name (charts eff) @ (if find_column data kws = None then [] else [metric])"
proof (cases "find_column data kws")
  case None
  then show ?thesis by (simp add: create_bar_graph_missing)
next
  case (Some metric_col)
  then show ?thesis by (simp add: create_bar_graph_found)
qed

lemma conditional_graph_names:
  "map metric_name (charts (if b then
        create_bar_graph ops project_root data metric kws ylabel title color eff else eff))
     = map metric_name (charts eff)
       @ (if b \<and> find_column data kws \<noteq> None then [metric] else [])"
  by (simp add: create_bar_graph_names)

lemma column_branch_names:
  "map metric_name (charts (column_branch ops project_root data e d g n eff))
     = map metric_name (charts eff)
       @ (if truthy e \<and> find_column data [''execution'', ''time''] \<noteq> None
          then [''Execution Time''] else [])
       @ (if truthy d \<and> find_column data [''delay''] \<noteq> None then [''Delay''] else [])
       @ (if truthy g \<and> find_column data [''energy'', ''power''] \<noteq> None
          then [''Energy''] else [])
       @ (if truthy n \<and> find_column data [''network'', ''usage''] \<noteq> None
          then [''Network Usage''] else [])"
proof -
  define eff1 where "eff1 = (if truthy e then
                    create_bar_graph ops project_root data ''Execution Time''
                      [''execution'', ''time''] ''Execution Time (ms)''
                      ''Execution Time Comparison'' ''steelblue'' eff
                  else eff)"
  define eff2 where "eff2 = (if truthy d then
                    create_bar_graph ops project_root data ''Delay''
                      [''delay''] ''Delay (ms)'' ''Delay Comparison'' ''green'' eff1
                  else eff1)"
  define eff3 where "eff3 = (if truthy g then
                    create_bar_graph ops project_root data ''Energy''
                      [''energy'', ''power''] ''Energy Consumption (J)''
                      ''Energy Consumption Comparison'' ''purple'' eff2
                  else eff2)"
  define eff4 where "eff4 = (if truthy n then
            create_bar_graph ops project_root data ''Network Usage''
              [''network'', ''usage''] ''Network Usage (Bytes)''
              ''Network Usage Comparison'' ''orange'' eff3
          else eff3)"
  have 1: "map metric_name (charts eff1) = map metric_name (charts eff)
       @ (if truthy e \<and> find_column data [''execution'', ''time''] \<noteq> None
          then [''Execution Time''] else [])"
    unfolding eff1_def by (rule conditional_graph_names)
  have 2: "map metric_name (charts eff2) = map metric_name (charts eff1)
       @ (if truthy d \<and> find_column data [''delay''] \<noteq> None then [''Delay''] else [])"
    unfolding eff2_def by (rule conditional_graph_names)
  have 3: "map metric_name (charts eff3) = map metric_name (charts eff2)
       @ (if truthy g \<and> find_column data [''energy'', ''power''] \<noteq> None
          then [''Energy''] else [])"
    unfolding eff3_def by (rule conditional_graph_names)
  have 4: "map metric_name (charts eff4) = map metric_name (charts eff3)
       @ (if truthy n \<and> find_column data [''network'', ''usage''] \<noteq> None
          then [''Network Usage''] else [])"
    unfolding eff4_def by (rule conditional_graph_names)
  have "column_branch ops project_root data e d g n eff = eff4"
    unfolding column_branch_def eff4_def eff3_def eff2_def eff1_def Let_def ..
  then have "map metric_name (charts (column_branch ops project_root data e d g n eff))
      = map metric_name (charts eff4)" by (rule arg_cong)
  also note 4
  also note 3
  also note 2
  also note 1
  finally show ?thesis by (simp only: append_assoc)
qed

lemma named_chart_unique:
  assumes names: "filter (\<lambda>x. x = m) (map metric_name chs) = [m]"
    and files: "\<forall>ch \<in> set chs. output_file ch = F (metric_name ch)"
  shows "\<exists>ch. filter (\<lambda>ch. metric_name ch = m) chs = [ch] \<and> output_file ch = F m"
proof -
  have "map metric_name (filter (\<lambda>ch. metric_name ch = m) chs)
      = filter (\<lambda>x. x = m) (map metric_name chs)"
    by (simp add: filter_map comp_def)
  with names have "map metric_name (filter (\<lambda>ch. metric_name ch = m) chs) = [m]" by simp
  then obtain ch where ch: "filter (\<lambda>ch. metric_name ch = m) chs = [ch]"
    by (cases "filter (\<lambda>ch. metric_name ch = m) chs") auto
  then have "ch \<in> set (filter (\<lambda>ch. metric_name ch = m) chs)" by simp
  then have "ch \<in> set chs" "metric_name ch = m" by simp_all
  with files have "output_file ch = F m" by auto
  with ch show ?thesis by blast
qed

lemma visualize_column_names:
  assumes "charts eff0 = []"
    and "truthy (find_column data [''execution'', ''time'', ''exec''])
      \<or> truthy (find_column data [''delay''])
      \<or> truthy (find_column data [''energy'', ''power''])
      \<or> truthy (find_column data [''network'', ''usage'', ''bandwidth''])"
  shows "map metric_name (saved_charts (visualize ops project_root data eff0))
     = (if truthy (find_column data [''execution'', ''time'', ''exec''])
           \<and> find_column data [''execution'', ''time''] \<noteq> None
        then [''Execution Time''] else [])
       @ (if truthy (find_column data [''delay'']) \<and> find_column data [''delay''] \<noteq> None
          then [''Delay''] else [])
       @ (if truthy (find_column data [''energy'', ''power''])
             \<and> find_column data [''energy'', ''power''] \<noteq> None
          then [''Energy''] else [])
       @ (if truthy (find_column data [''network'', ''usage'', ''bandwidth''])
             \<and> find_column data [''network'', ''usage''] \<noteq> None
          then [''Network Usage''] else [])"
proof -
  define effc where "effc = eff0\<lparr>console := console eff0 @
                   [Line (CHR 0x0A # banner 50),
                    Line ''Creating Visualization Graphs'',
                    Line (banner 50 @ [CHR 0x0A]),
                    Line (''Detected column-based CSV structure'' @ [CHR 0x0A])]\<rparr>"
  have c0: "charts effc = []" unfolding effc_def using assms(1) by simp
  have v: "saved_charts (visualize ops project_root data eff0) =
      charts (column_branch ops project_root data
         (find_column data [''execution'', ''time'', ''exec''])
         (find_column data [''delay''])
         (find_column data [''energy'', ''power''])
         (find_column data [''network'', ''usage'', ''bandwidth'']) effc)"
    using assms(2) unfolding visualize_def Let_def effc_def by simp
  show ?thesis unfolding v column_branch_names c0 by simp
qed

lemma visualize_row_charts:
  assumes "charts eff0 = []"
    and "\<not> truthy (find_column data [''execution'', ''time'', ''exec''])"
    and "\<not> truthy (find_column data [''delay''])"
    and "\<not> truthy (find_column data [''energy'', ''power''])"
    and "\<not> truthy (find_column data [''network'', ''usage'', ''bandwidth''])"
    and "columns data \<noteq> []"
  shows "saved_charts (visualize ops project_root data eff0)
     = map (row_chart ops project_root) (scan_rows ops (rows data) [])"
proof -
  define effr where "effr = eff0\<lparr>console := console eff0 @
                   [Line (CHR 0x0A # banner 50),
                    Line ''Creating Visualization Graphs'',
                    Line (banner 50 @ [CHR 0x0A]),
                    Line (''Trying row-based CSV structure'' @ [CHR 0x0A])]\<rparr>"
  have c0: "charts effr = []" unfolding effr_def using assms(1) by simp
  have "\<exists>eff' found.
      create_graphs_from_row_structure ops project_root data effr = Inr (eff', found)"
    using assms(6)
    by (cases "scan_rows ops (rows data) [] = []")
       (auto simp: create_graphs_from_row_structure_def Let_def)
  then obtain eff' found where r:
    "create_graphs_from_row_structure ops project_root data effr = Inr (eff', found)"
    by blast
  have "saved_charts (visualize ops project_root data eff0) = charts eff'"
    using assms(2-5) r unfolding visualize_def Let_def effr_def by simp
  also have "\<dots> = map (row_chart ops project_root) (scan_rows ops (rows data) [])"
    using row_structure_charts [OF r] c0 by simp
  finally show ?thesis .
qed

lemma distinct_key_filter:
  "distinct (map fst xs) \<Longrightarrow> (k, v) \<in> set xs \<Longrightarrow> filter (\<lambda>p. fst p = k) xs = [(k, v)]"
proof (induction xs)
  case Nil
  then show ?case by simp
next
  case (Cons p xs)
  show ?case
  proof (cases "fst p = k")
    case True
    with Cons.prems have "k \<notin> fst ` set xs" by simp
    then have none: "filter (\<lambda>p. fst p = k) xs = []"
      by (auto simp: filter_empty_conv)
    from \<open>k \<notin> fst ` set xs\<close> have "(k, v) \<notin> set xs" by force
    with Cons.prems(2) have "p = (k, v)" by simp
    with none show ?thesis by simp
  next
    case False
    with Cons.prems have "(k, v) \<in> set xs" "distinct (map fst xs)" by auto
    with Cons.IH False show ?thesis by simp
  qed
qed

text \<open>
  Claim C4, amended. On a located and parsed dataset, every chart saved is written to the
  project root under the file name made of its metric's display name with spaces replaced
  by underscores, lower-cased, and suffixed with \<^verbatim>\<open>_graph.png\<close>, which is one of
  \<^verbatim>\<open>execution_time_graph.png\<close>, \<^verbatim>\<open>delay_graph.png\<close>, \<^verbatim>\<open>energy_graph.png\<close> and
  \<^verbatim>\<open>network_usage_graph.png\<close>. Each metric for which a column is found with the keywords
  its renderer is called with (execution/time, delay, energy/power, network/usage) has
  exactly one chart, saved under that name; and on the row-based path each metric that the
  row scan populates has exactly one chart, holding its series and saved under that name.
\<close>

theorem classified_metric_chart_file:
  assumes located: "first_existing path_exists (possible_locations project_root) = Some csv_file"
    and parsed: "read_csv csv_file = Inr data"
  shows "(\<forall>ch \<in> set (saved_charts (main ops project_root path_exists read_csv)).
            output_file ch
              = path_join project_root (lower (replace_space (metric_name ch)) @ ''_graph.png'')
            \<and> lower (replace_space (metric_name ch)) @ ''_graph.png''
                \<in> {''execution_time_graph.png'', ''delay_graph.png'',
                    ''energy_graph.png'', ''network_usage_graph.png''})
     \<and> (\<forall>(metric, kws) \<in> set [(''Execution Time'', [''execution'', ''time'']),
                                (''Delay'', [''delay'']),
                                (''Energy'', [''energy'', ''power'']),
                                (''Network Usage'', [''network'', ''usage''])].
            find_column data kws \<noteq> None \<longrightarrow>
            (\<exists>ch. filter (\<lambda>ch. metric_name ch = metric)
                        (saved_charts (main ops project_root path_exists read_csv)) = [ch]
                \<and> output_file ch
                    = path_join project_root (lower (replace_space metric) @ ''_graph.png'')))
     \<and> (\<not> truthy (find_column data [''execution'', ''time'', ''exec''])
          \<and> \<not> truthy (find_column data [''delay''])
          \<and> \<not> truthy (find_column data [''energy'', ''power''])
          \<and> \<not> truthy (find_column data [''network'', ''usage'', ''bandwidth''])
          \<and> columns data \<noteq> [] \<longrightarrow>
          (\<forall>(metric, values) \<in> set (scan_rows ops (rows data) []).
             \<exists>ch. filter (\<lambda>ch. metric_name ch = metric)
                        (saved_charts (main ops project_root path_exists read_csv)) = [ch]
                \<and> bar_values ch = map FloatCell values
                \<and> output_file ch
                    = path_join project_root (lower (replace_space metric) @ ''_graph.png'')))"
proof -
  define eff0 :: "'a effects" where "eff0 =
                 \<lparr>console =
                    [Line (''Reading data from: '' @ csv_file),
                     Line ''CSV file loaded successfully!'',
                     LineWithColumns ''Columns found: '' (columns data),
                     Line (CHR 0x0A # ''First few rows:''),
                     Preview (take 5 (rows data))],
                  charts = []\<rparr>"
  define saved where "saved = saved_charts (main ops project_root path_exists read_csv)"
  define F where "F = (\<lambda>m. path_join project_root (lower (replace_space m) @ ''_graph.png''))"
  have m: "saved = saved_charts (visualize ops project_root data eff0)"
    unfolding saved_def using located parsed by (simp add: main_def eff0_def)
  have c0: "charts eff0 = []" by (simp add: eff0_def)
  have A: "\<forall>ch \<in> set saved.
            output_file ch = F (metric_name ch)
            \<and> lower (replace_space (metric_name ch)) @ ''_graph.png''
                \<in> {''execution_time_graph.png'', ''delay_graph.png'',
                    ''energy_graph.png'', ''network_usage_graph.png''}"
    unfolding saved_def F_def by (rule saved_chart_file_names)
  then have files: "\<forall>ch \<in> set saved. output_file ch = F (metric_name ch)" by blast
  have names: "map metric_name saved
     = (if truthy (find_column data [''execution'', ''time'', ''exec''])
           \<and> find_column data [''execution'', ''time''] \<noteq> None
        then [''Execution Time''] else [])
       @ (if truthy (find_column data [''delay'']) \<and> find_column data [''delay''] \<noteq> None
          then [''Delay''] else [])
       @ (if truthy (find_column data [''energy'', ''power''])
             \<and> find_column data [''energy'', ''power''] \<noteq> None
          then [''Energy''] else [])
       @ (if truthy (find_column data [''network'', ''usage'', ''bandwidth''])
             \<and> find_column data [''network'', ''usage''] \<noteq> None
          then [''Network Usage''] else [])"
    if "truthy (find_column data [''execution'', ''time'', ''exec''])
      \<or> truthy (find_column data [''delay''])
      \<or> truthy (find_column data [''energy'', ''power''])
      \<or> truthy (find_column data [''network'', ''usage'', ''bandwidth''])"
    unfolding m using c0 that by (rule visualize_column_names)
  have B1: "\<exists>ch. filter (\<lambda>ch. metric_name ch = ''Execution Time'') saved = [ch]
                \<and> output_file ch = F ''Execution Time''"
    if found: "find_column data [''execution'', ''time''] \<noteq> None"
  proof -
    have t: "truthy (find_column data [''execution'', ''time'', ''exec''])"
      using found by (rule short_list_classifies) simp_all
    have "filter (\<lambda>x. x = ''Execution Time'') (map metric_name saved) = [''Execution Time'']"
      using t found by (simp add: names)
    then show ?thesis using files by (rule named_chart_unique)
  qed
  have B2: "\<exists>ch. filter (\<lambda>ch. metric_name ch = ''Delay'') saved = [ch]
                \<and> output_file ch = F ''Delay''"
    if found: "find_column data [''delay''] \<noteq> None"
  proof -
    have t: "truthy (find_column data [''delay''])"
      using found by (rule short_list_classifies) simp_all
    have "filter (\<lambda>x. x = ''Delay'') (map metric_name saved) = [''Delay'']"
      using t found by (simp add: names)
    then show ?thesis using files by (rule named_chart_unique)
  qed
  have B3: "\<exists>ch. filter (\<lambda>ch. metric_name ch = ''Energy'') saved = [ch]
                \<and> output_file ch = F ''Energy''"
    if found: "find_column data [''energy'', ''power''] \<noteq> None"
  proof -
    have t: "truthy (find_column data [''energy'', ''power''])"
      using found by (rule short_list_classifies) simp_all
    have "filter (\<lambda>x. x = ''Energy'') (map metric_name saved) = [''Energy'']"
      using t found by (simp add: names)
    then show ?thesis using files by (rule named_chart_unique)
  qed
  have B4: "\<exists>ch. filter (\<lambda>ch. metric_name ch = ''Network Usage'') saved = [ch]
                \<and> output_file ch = F ''Network Usage''"
    if found: "find_column data [''network'', ''usage''] \<noteq> None"
  proof -
    have t: "truthy (find_column data [''network'', ''usage'', ''bandwidth''])"
      using found by (rule short_list_classifies) simp_all
    have "filter (\<lambda>x. x = ''Network Usage'') (map metric_name saved) = [''Network Usage'']"
      using t found by (simp add: names)
    then show ?thesis using files by (rule named_chart_unique)
  qed
  have B: "\<forall>(metric, kws) \<in> set [(''Execution Time'', [''execution'', ''time'']),
                                (''Delay'', [''delay'']),
                                (''Energy'', [''energy'', ''power'']),
                                (''Network Usage'', [''network'', ''usage''])].
            find_column data kws \<noteq> None \<longrightarrow>
            (\<exists>ch. filter (\<lambda>ch. metric_name ch = metric) saved = [ch]
                \<and> output_file ch = F metric)"
    using B1 B2 B3 B4 by simp
  have C: "\<forall>(metric, vs) \<in> set (scan_rows ops (rows data) []).
             \<exists>ch. filter (\<lambda>ch. metric_name ch = metric) saved = [ch]
                \<and> bar_values ch = map FloatCell vs
                \<and> output_file ch = F metric"
    if no: "\<not> truthy (find_column data [''execution'', ''time'', ''exec''])
          \<and> \<not> truthy (find_column data [''delay''])
          \<and> \<not> truthy (find_column data [''energy'', ''power''])
          \<and> \<not> truthy (find_column data [''network'', ''usage'', ''bandwidth''])
          \<and> columns data \<noteq> []"
  proof -
    define mr where "mr = scan_rows ops (rows data) []"
    have s: "saved = map (row_chart ops project_root) mr"
      unfolding m mr_def using c0 no by (intro visualize_row_charts) simp_all
    have d: "distinct (map fst mr)" unfolding mr_def by (rule distinct_scan_rows) simp
    have "\<exists>ch. filter (\<lambda>ch. metric_name ch = metric) saved = [ch]
                \<and> bar_values ch = map FloatCell vs
                \<and> output_file ch = F metric"
      if e: "(metric, vs) \<in> set mr" for metric vs
    proof -
      have n: "metric_name (row_chart ops project_root p) = fst p" for p
        by (cases p) (simp add: row_chart_def)
      have "filter (\<lambda>ch. metric_name ch = metric) saved
          = map (row_chart ops project_root) (filter (\<lambda>p. fst p = metric) mr)"
        unfolding s by (simp add: filter_map comp_def n)
      also have "\<dots> = [row_chart ops project_root (metric, vs)]"
        using distinct_key_filter [OF d e] by simp
      finally have f: "filter (\<lambda>ch. metric_name ch = metric) saved
          = [row_chart ops project_root (metric, vs)]" .
      moreover have "bar_values (row_chart ops project_root (metric, vs))
          = map FloatCell vs" by (simp add: row_chart_def)
      moreover have "output_file (row_chart ops project_root (metric, vs)) = F metric"
        by (simp add: row_chart_def F_def output_name_def)
      ultimately show ?thesis by blast
    qed
    then show ?thesis unfolding mr_def by blast
  qed
  from A B C show ?thesis unfolding saved_def F_def by blast
qed

theorem classified_metric_chart_file_witness:
  "(\<exists>ch. filter (\<lambda>ch. metric_name ch = ''Energy'') (saved_charts (sample_run column_example)) = [ch]
        \<and> output_file ch = ''/proj/energy_graph.png'')
   \<and> (\<exists>ch. filter (\<lambda>ch. metric_name ch = ''Delay'')
              (saved_charts (sample_run
                 \<lparr>columns = [''Metric'', ''Config1'', ''Config2''],
                  rows = [[StrCell ''Execution Time'', IntCell 100, IntCell 120],
                          [StrCell ''Delay'', IntCell 50, IntCell 55]]\<rparr>)) = [ch]
        \<and> bar_values ch = [FloatCell 50, FloatCell 55]
        \<and> output_file ch = ''/proj/delay_graph.png'')
   \<and> output_file (hd (saved_charts (sample_run column_example)))
       = path_join ''/proj'' (lower (replace_space
           (metric_name (hd (saved_charts (sample_run column_example))))) @ ''_graph.png'')"
proof -
  define frame :: "int dataframe" where "frame =
     \<lparr>columns = [''Metric'', ''Config1'', ''Config2''],
      rows = [[StrCell ''Execution Time'', IntCell 100, IntCell 120],
              [StrCell ''Delay'', IntCell 50, IntCell 55]]\<rparr>"
  have located: "first_existing (\<lambda>p. p = ''/proj/results.csv'') (possible_locations ''/proj'')
      = Some ''/proj/results.csv''" by code_simp
  have parsed1: "(\<lambda>p. Inr column_example :: string + int dataframe) ''/proj/results.csv''
      = Inr column_example" by simp
  have parsed2: "(\<lambda>p. Inr frame :: string + int dataframe) ''/proj/results.csv'' = Inr frame"
    by simp
  note t1 = classified_metric_chart_file [OF located parsed1, of whole_floats, folded sample_run_def]
  note t2 = classified_metric_chart_file [OF located parsed2, of whole_floats, folded sample_run_def]
  have e: "find_column column_example [''energy'', ''power''] \<noteq> None" by code_simp
  have en: "path_join ''/proj'' (lower (replace_space ''Energy'') @ ''_graph.png'')
      = ''/proj/energy_graph.png''" by code_simp
  have dn: "path_join ''/proj'' (lower (replace_space ''Delay'') @ ''_graph.png'')
      = ''/proj/delay_graph.png''" by code_simp
  have mem: "(''Energy'', [''energy'', ''power'']) \<in> set [(''Execution Time'', [''execution'', ''time'']),
                                (''Delay'', [''delay'']),
                                (''Energy'', [''energy'', ''power'']),
                                (''Network Usage'', [''network'', ''usage''])]" by simp
  have 1: "\<exists>ch. filter (\<lambda>ch. metric_name ch = ''Energy'') (saved_charts (sample_run column_example)) = [ch]
        \<and> output_file ch = ''/proj/energy_graph.png''"
    using bspec [OF t1 [THEN conjunct2, THEN conjunct1] mem, unfolded prod.case, THEN mp, OF e]
    unfolding en .
  have n: "\<not> truthy (find_column frame [''execution'', ''time'', ''exec''])
          \<and> \<not> truthy (find_column frame [''delay''])
          \<and> \<not> truthy (find_column frame [''energy'', ''power''])
          \<and> \<not> truthy (find_column frame [''network'', ''usage'', ''bandwidth''])
          \<and> columns frame \<noteq> []"
    unfolding frame_def by code_simp
  have s: "(''Delay'', [50, 55]) \<in> set (scan_rows whole_floats (rows frame) [])"
    unfolding frame_def by code_simp
  note c = t2 [THEN conjunct2, THEN conjunct2, THEN mp, OF n]
  have 2: "\<exists>ch. filter (\<lambda>ch. metric_name ch = ''Delay'') (saved_charts (sample_run frame)) = [ch]
        \<and> bar_values ch = [FloatCell 50, FloatCell 55]
        \<and> output_file ch = ''/proj/delay_graph.png''"
    using bspec [OF c s, unfolded prod.case] unfolding dn by simp
  have ne: "saved_charts (sample_run column_example) \<noteq> []" by code_simp
  then have h: "hd (saved_charts (sample_run column_example))
      \<in> set (saved_charts (sample_run column_example))" by (rule hd_in_set)
  have 3: "output_file (hd (saved_charts (sample_run column_example)))
       = path_join ''/proj'' (lower (replace_space
           (metric_name (hd (saved_charts (sample_run column_example))))) @ ''_graph.png'')"
    using bspec [OF t1 [THEN conjunct1] h] by (rule conjunct1)
  from 1 2 3 show ?thesis unfolding frame_def by (intro conjI)
qed

text \<open>
  On the specification's example the Energy chart goes to \<^verbatim>\<open>energy_graph.png\<close>; no file
  is called \<^verbatim>\<open>energy_consumption_graph.png\<close>.
\<close>

theorem energy_file_name_counterexample:
  "map output_file (saved_charts (sample_run column_example))
     = [''/proj/execution_time_graph.png'', ''/proj/delay_graph.png'',
        ''/proj/energy_graph.png'', ''/proj/network_usage_graph.png'']
   \<and> ''/proj/energy_consumption_graph.png''
       \<notin> set (map output_file (saved_charts (sample_run column_example)))"
  by code_simp

end
